theory Spec2Isabelle
  imports Complex_Main
begin

section \<open>Terpene visual vocabulary: taxonomy store and query functions\<close>

text \<open>
  A shallow embedding of \<^verbatim>\<open>src/terpene_vocabulary/server.py\<close>: the table
  \<^verbatim>\<open>TERPENES\<close> and the tool functions that read it.

  Conventions of the embedding.
  \<^item> A Python \<^verbatim>\<open>str\<close> is a \<open>string\<close>. Text outside ASCII (the subscript digits of
    the molecular formulas, the dashes of some prompts) is written as its UTF-8 bytes.
    The string methods \<^verbatim>\<open>lower\<close>, \<^verbatim>\<open>upper\<close> and \<^verbatim>\<open>strip\<close> are modelled on ASCII:
    arguments of the tools are taken to be ASCII text.
  \<^item> A float literal of the table is kept as the decimal number written (\<open>rat\<close>): the
    code only compares and copies these, and reading a decimal as a float keeps
    order, and keeps equality with 1. Where the code computes with floats, in
    \<^verbatim>\<open>apply_intensity_modifier\<close>, a float is the rational that the IEEE double is
    exactly, and every literal and every operation rounds to the nearest double.
  \<^item> The dictionaries of the table have one fixed set of keys each and are read with
    constant keys, so they are records; the dictionary of stages is read with a key
    that the caller supplies, so it is an association list in definition order.
  \<^item> Each tool returns \<^verbatim>\<open>json.dumps(d)\<close> for a dictionary \<^verbatim>\<open>d\<close>; the model returns
    \<^verbatim>\<open>d\<close> as a value of type \<open>json\<close>, objects keeping their insertion order. A failure
    that the code reports as a dictionary with the key \<^verbatim>\<open>error\<close> is such a value; a
    \<^verbatim>\<open>KeyError\<close> that a subscript would raise is \<open>Inl\<close> of a result of type
    \<open>py_error + json\<close>.
\<close>

subsection \<open>Strings\<close>

definition lower_char :: "char \<Rightarrow> char" where
  "lower_char c =
     (let n = (of_char c :: nat) in if 65 \<le> n \<and> n \<le> 90 then char_of (n + 32) else c)"

definition upper_char :: "char \<Rightarrow> char" where
  "upper_char c =
     (let n = (of_char c :: nat) in if 97 \<le> n \<and> n \<le> 122 then char_of (n - 32) else c)"

definition str_lower :: "string \<Rightarrow> string" where
  "str_lower s = map lower_char s"

definition str_upper :: "string \<Rightarrow> string" where
  "str_upper s = map upper_char s"

text \<open>The ASCII characters for which \<^verbatim>\<open>str.isspace\<close> holds: 9 to 13 and 28 to 32.\<close>

definition is_space :: "char \<Rightarrow> bool" where
  "is_space c = (let n = (of_char c :: nat) in (9 \<le> n \<and> n \<le> 13) \<or> (28 \<le> n \<and> n \<le> 32))"

definition str_strip :: "string \<Rightarrow> string" where
  "str_strip s = rev (dropWhile is_space (rev (dropWhile is_space s)))"

text \<open>\<^verbatim>\<open>s.split(sep)\<close> for a separator of one character: empty pieces are kept.\<close>

fun str_split :: "char \<Rightarrow> string \<Rightarrow> string list" where
  "str_split sep [] = [[]]"
| "str_split sep (c # cs) =
     (if c = sep then [] # str_split sep cs
      else (case str_split sep cs of
              [] \<Rightarrow> [[c]]
            | w # ws \<Rightarrow> (c # w) # ws))"

fun starts_with :: "string \<Rightarrow> string \<Rightarrow> bool" where
  "starts_with s [] = True"
| "starts_with [] (p # ps) = False"
| "starts_with (c # cs) (p # ps) = (c = p \<and> starts_with cs ps)"

text \<open>\<^verbatim>\<open>kw in s\<close> on strings: \<open>kw\<close> occurs in \<open>s\<close> as a contiguous piece.\<close>

fun str_contains :: "string \<Rightarrow> string \<Rightarrow> bool" where
  "str_contains [] kw = (kw = [])"
| "str_contains (c # cs) kw = (starts_with (c # cs) kw \<or> str_contains cs kw)"

subsection \<open>Data model\<close>

record stage_record =
  duration :: string
  description :: string
  saturation_adjustment :: rat
  luminosity_adjustment :: rat
  edge_quality :: string

record color_specs_record =
  primary_palette :: string
  saturation :: string
  luminosity :: string
  boundaries :: string
  secondary_accents :: string
  color_quality :: string

record temporal_qualities_record =
  volatility :: string
  persistence :: string
  stages :: "(string \<times> stage_record) list"

record terpene =
  name :: string
  molecular_formula :: string
  classification :: string
  scent_profile :: string
  visual_character :: string
  primary_colors :: "string list"
  color_specs :: color_specs_record
  composition :: string
  temporal_qualities :: temporal_qualities_record
  master_prompt :: string
  chemical_communication :: string
  fusion_strength :: string
  semantic_bridges :: "string list"

datatype json =
    JNull
  | JStr string
  | JNum rat
  | JArr "json list"
  | JObj "(string \<times> json) list"

datatype py_error = KeyError string

subsection \<open>The table \<^verbatim>\<open>TERPENES\<close>\<close>

definition limonene_record :: terpene where
  "limonene_record = \<lparr>
     name = ''Limonene'',
     molecular_formula = ''C'' @ [CHR 0xE2, CHR 0x82, CHR 0x81, CHR 0xE2, CHR 0x82, CHR 0x80] @ ''H'' @ [CHR 0xE2, CHR 0x82, CHR 0x81, CHR 0xE2, CHR 0x82, CHR 0x86],
     classification = ''Monocyclic monoterpene'',
     scent_profile = ''Bright, citrus, sharp, zesty, fresh, sweet-tart'',
     visual_character = ''Crisp, radial, high-luminosity'',
     primary_colors = [''Saturated yellow'', ''Orange'', ''Bright white''],
     color_specs = \<lparr>
       primary_palette = ''Saturated yellows (60%), oranges (25%), whites/highlights (15%)'',
       saturation = ''High (75-95%)'',
       luminosity = ''Very bright (80-90%)'',
       boundaries = ''Crisp transitions'',
       secondary_accents = ''White highlights, pale lemon'',
       color_quality = ''Transparent, translucent quality''
     \<rparr>,
     composition = ''Concentric spirals, radial symmetry, angular forms'',
     temporal_qualities = \<lparr>
       volatility = ''Highly volatile'',
       persistence = ''Rapid dissipation'',
       stages = [
         (''fresh'', \<lparr>
           duration = ''0-2 hours'',
           description = ''Sharp edges, maximal saturation, crisp geometry, intense highlights'',
           saturation_adjustment = 1.0,
           luminosity_adjustment = 1.0,
           edge_quality = ''Crisp''
         \<rparr>),
         (''active'', \<lparr>
           duration = ''2-6 hours'',
           description = ''Slight softening at boundaries, saturation fading marginally'',
           saturation_adjustment = 0.85,
           luminosity_adjustment = 0.95,
           edge_quality = ''Mostly crisp''
         \<rparr>),
         (''fading'', \<lparr>
           duration = ''6-12 hours'',
           description = ''Edges blur significantly, saturation drops to 40-60%, highlights diffuse'',
           saturation_adjustment = 0.5,
           luminosity_adjustment = 0.85,
           edge_quality = ''Soft''
         \<rparr>),
         (''traces'', \<lparr>
           duration = ''12+ hours'',
           description = ''Ghost impressions, pale yellows, very soft edges'',
           saturation_adjustment = 0.2,
           luminosity_adjustment = 0.7,
           edge_quality = ''Very soft''
         \<rparr>)
       ]
     \<rparr>,
     master_prompt = ''Limonene generates crisp, radially symmetrical compositions in saturated yellows and oranges with bright white highlights. Concentric spirals emanate from a luminous center, suggesting broadcast signals of ripeness and attraction. The geometry is clean and angular'' @ [CHR 0xE2, CHR 0x80, CHR 0x94] @ ''pointed edges catch sharp light. Colors transition acidically from warm yellow-orange cores to paler lemon tones at boundaries. High luminosity throughout, with minimal shadow depth. The composition captures volatility through crisp definition gradually softening at margins, as if the bright aromatic signal is dispersing into air, leaving fading citrus-colored traces.'',
     chemical_communication = ''Signals ripeness and food sources to insects; broadcast/attractant quality'',
     fusion_strength = ''Strong - works well with concepts involving visibility, broadcasting, energy'',
     semantic_bridges = [''radial presence'', ''broadcasting'', ''visibility'', ''bright presence'', ''citrus warmth'']
   \<rparr>"

definition pinene_record :: terpene where
  "pinene_record = \<lparr>
     name = ''Pinene'',
     molecular_formula = ''C'' @ [CHR 0xE2, CHR 0x82, CHR 0x81, CHR 0xE2, CHR 0x82, CHR 0x80] @ ''H'' @ [CHR 0xE2, CHR 0x82, CHR 0x81, CHR 0xE2, CHR 0x82, CHR 0x86],
     classification = ''Bicyclic monoterpene'',
     scent_profile = ''Woody, sharp, fresh-resinous, piney, slightly medicinal, clean'',
     visual_character = ''Sharp, geometric, defensive, crystalline'',
     primary_colors = [''Deep green'', ''Amber'', ''Cool white''],
     color_specs = \<lparr>
       primary_palette = ''Deep greens (50%), amber/brown (30%), cool whites (20%)'',
       saturation = ''Medium-high (65-80%)'',
       luminosity = ''Medium (50-70%)'',
       boundaries = ''Sharper than earthy terpenes'',
       secondary_accents = ''Cool gray-whites, forest-deep greens'',
       color_quality = ''Translucent, amber-like clarity''
     \<rparr>,
     composition = ''Interlocking planes, angular forms, needle-like protrusions, layered depth'',
     temporal_qualities = \<lparr>
       volatility = ''Moderately volatile'',
       persistence = ''More stable than limonene'',
       stages = [
         (''fresh'', \<lparr>
           duration = ''0-4 hours'',
           description = ''Sharp needle-like edges, deep green saturation, crisp amber highlights'',
           saturation_adjustment = 1.0,
           luminosity_adjustment = 1.0,
           edge_quality = ''Sharp''
         \<rparr>),
         (''active'', \<lparr>
           duration = ''4-12 hours'',
           description = ''Slight dulling, amber becoming opaque'',
           saturation_adjustment = 0.8,
           luminosity_adjustment = 0.9,
           edge_quality = ''Mostly sharp''
         \<rparr>),
         (''fading'', \<lparr>
           duration = ''12-24 hours'',
           description = ''Geometric sharpness softens, colors muting and becoming earthy'',
           saturation_adjustment = 0.5,
           luminosity_adjustment = 0.75,
           edge_quality = ''Soft''
         \<rparr>),
         (''traces'', \<lparr>
           duration = ''24+ hours'',
           description = ''Pale greens and warm browns remain, edges very soft'',
           saturation_adjustment = 0.25,
           luminosity_adjustment = 0.6,
           edge_quality = ''Very soft''
         \<rparr>)
       ]
     \<rparr>,
     master_prompt = ''Pinene generates complex, interlocking geometric compositions in deep greens and warm ambers. Bicyclic molecular structure translates to tightly-locked angular forms suggesting both structural rigidity and defensive positioning. Needle-like protrusions catch sharp, cool light while creating layered shadow depth. Saturation is medium-high but cooler in tone than limonene. The composition reads as crystalline and precise'' @ [CHR 0xE2, CHR 0x80, CHR 0x94] @ ''resinous amber captured within geometric boundaries. Sharp edges and crisp intersections gradually soften over time, with bright amber highlights becoming warmer and deeper greens mellowing into earthy forest tones as the volatile pinene disperses.'',
     chemical_communication = ''Signals plant defense and territorial marking; defensive/protective quality'',
     fusion_strength = ''Strong - works well with concepts involving precision, defense, complexity, structure'',
     semantic_bridges = [''defensive geometry'', ''crystalline precision'', ''territorial marking'', ''rigidity'', ''woody depth'']
   \<rparr>"

definition myrcene_record :: terpene where
  "myrcene_record = \<lparr>
     name = ''Myrcene'',
     molecular_formula = ''C'' @ [CHR 0xE2, CHR 0x82, CHR 0x81, CHR 0xE2, CHR 0x82, CHR 0x80] @ ''H'' @ [CHR 0xE2, CHR 0x82, CHR 0x81, CHR 0xE2, CHR 0x82, CHR 0x86],
     classification = ''Acyclic monoterpene'',
     scent_profile = ''Earthy, musky, herbal, spicy, clove-like, slightly fruity, warm'',
     visual_character = ''Flowing, organic, earthy, distributed'',
     primary_colors = [''Warm brown'', ''Ochre'', ''Deep green''],
     color_specs = \<lparr>
       primary_palette = ''Warm browns (40%), ochres/earth tones (35%), deep greens (20%), golden accents (5%)'',
       saturation = ''Medium-low (50-65%)'',
       luminosity = ''Lower (35-50%)'',
       boundaries = ''Soft, blurred transitions'',
       secondary_accents = ''Clove-warm spice tones, muted olive greens'',
       color_quality = ''Opaque, earthy, matte quality''
     \<rparr>,
     composition = ''Flowing ribbons, directional movement, organic shapes, non-geometric'',
     temporal_qualities = \<lparr>
       volatility = ''Moderately volatile'',
       persistence = ''Slightly more stable than monoterpenes'',
       stages = [
         (''fresh'', \<lparr>
           duration = ''0-6 hours'',
           description = ''Richest color saturation, slight green freshness visible'',
           saturation_adjustment = 1.0,
           luminosity_adjustment = 1.0,
           edge_quality = ''Soft but defined''
         \<rparr>),
         (''active'', \<lparr>
           duration = ''6-12 hours'',
           description = ''Green tones fade, browns become dominant'',
           saturation_adjustment = 0.75,
           luminosity_adjustment = 0.85,
           edge_quality = ''Soft''
         \<rparr>),
         (''fading'', \<lparr>
           duration = ''12-24 hours'',
           description = ''Color becomes muddier, warm tones persist'',
           saturation_adjustment = 0.45,
           luminosity_adjustment = 0.7,
           edge_quality = ''Very soft''
         \<rparr>),
         (''traces'', \<lparr>
           duration = ''24+ hours'',
           description = ''Muted earth tones remain, very soft focus'',
           saturation_adjustment = 0.2,
           luminosity_adjustment = 0.5,
           edge_quality = ''Very soft''
         \<rparr>)
       ]
     \<rparr>,
     master_prompt = ''Myrcene generates flowing, organic compositions dominated by warm earths, ochres, and muted greens. The linear molecular structure translates to ribbon-like forms moving through space with clear directional vectors, undulating and flexible rather than rigid. Saturation is deliberately lower and luminosity muted, creating a grounded, earthy aesthetic. Boundaries between color zones are soft and blurred, as if the composition is diffusing its presence throughout the surrounding space like distributed herbal signals. No sharp highlights or crisp edges'' @ [CHR 0xE2, CHR 0x80, CHR 0x94] @ ''instead, everything has matte, warm, musky quality. Over time, green freshness fades while warm earth tones persist, eventually becoming indistinct traces of ochre and brown.'',
     chemical_communication = ''Signals plant maturity and growth; distributed/expansive quality'',
     fusion_strength = ''Strong - works well with organic subjects, landscapes, movement, growth'',
     semantic_bridges = [''flowing movement'', ''earthy grounding'', ''organic growth'', ''distributed presence'', ''natural unfolding'']
   \<rparr>"

definition caryophyllene_record :: terpene where
  "caryophyllene_record = \<lparr>
     name = ''Caryophyllene'',
     molecular_formula = ''C'' @ [CHR 0xE2, CHR 0x82, CHR 0x81, CHR 0xE2, CHR 0x82, CHR 0x85] @ ''H'' @ [CHR 0xE2, CHR 0x82, CHR 0x82, CHR 0xE2, CHR 0x82, CHR 0x84],
     classification = ''Bicyclic sesquiterpene'',
     scent_profile = ''Spicy, peppery, woody, warm, slightly sweet, clove-like, complex, sophisticated'',
     visual_character = ''Layered, complex, deep, warm-spiced'',
     primary_colors = [''Deep burgundy'', ''Rich brown'', ''Warm amber''],
     color_specs = \<lparr>
       primary_palette = ''Deep warm browns (35%), rich reds/burgundy (25%), amber (20%), dark earth tones (20%)'',
       saturation = ''Medium (60-75%)'',
       luminosity = ''Medium-low (45-60%)'',
       boundaries = ''Some crisp, mostly soft'',
       secondary_accents = ''Deep burgundy highlights, warm copper tones'',
       color_quality = ''Rich, sophisticated, translucent amber''
     \<rparr>,
     composition = ''Interlocking forms, layered depth, complex structural relationships'',
     temporal_qualities = \<lparr>
       volatility = ''Low volatility - sesquiterpene'',
       persistence = ''Persists much longer than monoterpenes'',
       stages = [
         (''fresh'', \<lparr>
           duration = ''0-12 hours'',
           description = ''Rich saturation, deep burgundy prominent, warmest amber highlights'',
           saturation_adjustment = 1.0,
           luminosity_adjustment = 1.0,
           edge_quality = ''Defined''
         \<rparr>),
         (''active'', \<lparr>
           duration = ''12-48 hours'',
           description = ''Saturation holds, colors remain sophisticated and deep'',
           saturation_adjustment = 0.9,
           luminosity_adjustment = 0.95,
           edge_quality = ''Defined''
         \<rparr>),
         (''fading'', \<lparr>
           duration = ''48-72 hours'',
           description = ''Gradual dulling, warm tones becoming more uniform'',
           saturation_adjustment = 0.65,
           luminosity_adjustment = 0.8,
           edge_quality = ''Soft''
         \<rparr>),
         (''traces'', \<lparr>
           duration = ''72+ hours'',
           description = ''Deep browns remain, complexity fades'',
           saturation_adjustment = 0.35,
           luminosity_adjustment = 0.6,
           edge_quality = ''Soft''
         \<rparr>)
       ]
     \<rparr>,
     master_prompt = ''Caryophyllene generates sophisticated, densely-layered compositions in deep burgundy, rich browns, warm amber, and dark earth tones. The bicyclic sesquiterpene structure creates interlocking forms more complex than smaller terpenes, suggesting both resilience and sophisticated molecular communication. Saturation is medium and warmth permeates throughout'' @ [CHR 0xE2, CHR 0x80, CHR 0x94] @ ''no cool tones. Luminosity is deliberately held lower, creating visual weight and substance. The composition reads as layered complexity, with burgundy and amber creating depth within warm darkness. Unlike volatile monoterpenes, caryophyllene'' @ [CHR 0x27] @ ''s persistence translates to long-lasting visual richness'' @ [CHR 0xE2, CHR 0x80, CHR 0x94] @ ''colors and complexity maintain their depth over time before gradually simplifying into muted warm earth tones.'',
     chemical_communication = ''Signals plant defense and stress response; complex ecological communication'',
     fusion_strength = ''Strong - works well with sophisticated subjects, emotional depth, complexity'',
     semantic_bridges = [''sophisticated depth'', ''warm presence'', ''complex resilience'', ''spiced warmth'', ''layered intelligence'']
   \<rparr>"

definition linalool_record :: terpene where
  "linalool_record = \<lparr>
     name = ''Linalool'',
     molecular_formula = ''C'' @ [CHR 0xE2, CHR 0x82, CHR 0x81, CHR 0xE2, CHR 0x82, CHR 0x80] @ ''H'' @ [CHR 0xE2, CHR 0x82, CHR 0x81, CHR 0xE2, CHR 0x82, CHR 0x88] @ ''O'',
     classification = ''Acyclic monoterpene alcohol'',
     scent_profile = ''Floral, lavender, sweet, fresh, slightly fruity, delicate, soft, calming'',
     visual_character = ''Ethereal, soft, luminous, delicate'',
     primary_colors = [''Soft purple'', ''Pale violet'', ''Luminous white''],
     color_specs = \<lparr>
       primary_palette = ''Soft purples/lavenders (40%), pale violets (20%), soft whites/cream (25%), pale pinks (15%)'',
       saturation = ''Low-medium (50-65%)'',
       luminosity = ''Very high (75-90%)'',
       boundaries = ''Extremely soft, watercolor-like'',
       secondary_accents = ''Pale lilac, cream highlights, soft mauve'',
       color_quality = ''Translucent, ethereal, delicate''
     \<rparr>,
     composition = ''Flowing forms, graceful geometry, delicate structures'',
     temporal_qualities = \<lparr>
       volatility = ''Moderately volatile'',
       persistence = ''Less dramatic than some terpenes'',
       stages = [
         (''fresh'', \<lparr>
           duration = ''0-4 hours'',
           description = ''Richest purple saturation, brightest highlights, most luminous'',
           saturation_adjustment = 1.0,
           luminosity_adjustment = 1.0,
           edge_quality = ''Very soft''
         \<rparr>),
         (''active'', \<lparr>
           duration = ''4-12 hours'',
           description = ''Slight warming in tone, purples becoming more mauve'',
           saturation_adjustment = 0.8,
           luminosity_adjustment = 0.95,
           edge_quality = ''Very soft''
         \<rparr>),
         (''fading'', \<lparr>
           duration = ''12-24 hours'',
           description = ''Purples fading to pale lavenders, whites, losing saturation'',
           saturation_adjustment = 0.45,
           luminosity_adjustment = 0.85,
           edge_quality = ''Very soft''
         \<rparr>),
         (''traces'', \<lparr>
           duration = ''24+ hours'',
           description = ''Pale creams and ghostly lavender washes'',
           saturation_adjustment = 0.15,
           luminosity_adjustment = 0.75,
           edge_quality = ''Very soft''
         \<rparr>)
       ]
     \<rparr>,
     master_prompt = ''Linalool generates ethereal, luminous compositions in soft lavenders, pale violets, and creamy whites. The acyclic structure translates to graceful, flowing forms'' @ [CHR 0xE2, CHR 0x80, CHR 0x94] @ ''more delicate than other terpenes due to the hydroxyl functional group adding translucence. Saturation is deliberately kept low (50-65%) while luminosity remains very high (75-90%), creating an airy, almost watercolor-like aesthetic. Boundaries are extremely soft and blurred, suggesting delicate dissolution into surrounding space. The palette maintains cool tones but reads as warm and inviting through ethereal quality. Forms appear graceful and gently communicative rather than signaling forcefully. Linalool'' @ [CHR 0x27] @ ''s moderate volatility means the composition gradually transitions from rich lavender luminescence to pale ghostly traces, fading delicately over extended time.'',
     chemical_communication = ''Signals attraction and gentle communication; calming/peaceful quality'',
     fusion_strength = ''Strong - works well with delicate subjects, romantic concepts, spiritual themes'',
     semantic_bridges = [''ethereal presence'', ''graceful communication'', ''floral softness'', ''calming luminescence'', ''delicate transcendence'']
   \<rparr>"

definition terpinolene_record :: terpene where
  "terpinolene_record = \<lparr>
     name = ''Terpinolene'',
     molecular_formula = ''C'' @ [CHR 0xE2, CHR 0x82, CHR 0x81, CHR 0xE2, CHR 0x82, CHR 0x80] @ ''H'' @ [CHR 0xE2, CHR 0x82, CHR 0x81, CHR 0xE2, CHR 0x82, CHR 0x86],
     classification = ''Bicyclic monoterpene with exocyclic double bond'',
     scent_profile = ''Fresh, herbal, woody, piney, slightly fruity, complex, crisp, sophisticated'',
     visual_character = ''Fresh, complex, crisp, sophisticated'',
     primary_colors = [''Fresh green'', ''Crisp white'', ''Soft earth''],
     color_specs = \<lparr>
       primary_palette = ''Fresh greens (35%), crisp whites/highlights (25%), soft earths (20%), cool grays (15%), pale yellows (5%)'',
       saturation = ''Medium (65-75%)'',
       luminosity = ''High (70-85%)'',
       boundaries = ''Mixed - some crisp, some soft'',
       secondary_accents = ''Pale sage, cool gray-greens, soft golden'',
       color_quality = ''Translucent in some zones, opaque in others''
     \<rparr>,
     composition = ''Complex geometric forms with outward-reaching elements, balanced structure and motion'',
     temporal_qualities = \<lparr>
       volatility = ''Volatile'',
       persistence = ''Dissipates relatively quickly'',
       stages = [
         (''fresh'', \<lparr>
           duration = ''0-3 hours'',
           description = ''Brightest greens, sharpest highlights, most complex saturation'',
           saturation_adjustment = 1.0,
           luminosity_adjustment = 1.0,
           edge_quality = ''Mixed crisp/soft''
         \<rparr>),
         (''active'', \<lparr>
           duration = ''3-9 hours'',
           description = ''Slight softening, green intensity maintaining'',
           saturation_adjustment = 0.85,
           luminosity_adjustment = 0.95,
           edge_quality = ''Mostly soft''
         \<rparr>),
         (''fading'', \<lparr>
           duration = ''9-18 hours'',
           description = ''Greens muting, sophistication fading to simpler herbal'',
           saturation_adjustment = 0.55,
           luminosity_adjustment = 0.8,
           edge_quality = ''Soft''
         \<rparr>),
         (''traces'', \<lparr>
           duration = ''18+ hours'',
           description = ''Pale greens and soft grays remain'',
           saturation_adjustment = 0.25,
           luminosity_adjustment = 0.65,
           edge_quality = ''Very soft''
         \<rparr>)
       ]
     \<rparr>,
     master_prompt = ''Terpinolene generates sophisticated fresh compositions with complex geometric layering in vibrant greens, crisp whites, earthy undertones, and cool grays. The unusual bicyclic structure with exocyclic double bond creates visual tension between internal geometric stability and outward-reaching motion. Saturation is medium-high with high luminosity, creating crisp, airy aesthetic distinct from other fresh terpenes. The composition reads as sophisticated freshness'' @ [CHR 0xE2, CHR 0x80, CHR 0x94] @ ''not simple brightness, but rather complex herbal clarity with geometric precision. Boundaries are deliberately mixed: some areas crisp and defined, others softer, reflecting structural complexity. Terpinolene'' @ [CHR 0x27] @ ''s volatility means the composition gradually transitions from complex geometric freshness to muted herbal tones over roughly 18 hours, with bright greens fading first.'',
     chemical_communication = ''Signals plant vitality and complex ecological information; sophisticated presence'',
     fusion_strength = ''Medium-strong - works well with intellectual/sophisticated concepts'',
     semantic_bridges = [''sophisticated freshness'', ''complex clarity'', ''herbal precision'', ''outward expansion'', ''geometric grace'']
   \<rparr>"

definition humulene_record :: terpene where
  "humulene_record = \<lparr>
     name = ''Humulene'',
     molecular_formula = ''C'' @ [CHR 0xE2, CHR 0x82, CHR 0x81, CHR 0xE2, CHR 0x82, CHR 0x85] @ ''H'' @ [CHR 0xE2, CHR 0x82, CHR 0x82, CHR 0xE2, CHR 0x82, CHR 0x84],
     classification = ''Bicyclic sesquiterpene (isomer of caryophyllene)'',
     scent_profile = ''Hoppy, woody, earthy, spicy, herbal, complex, slightly sweet'',
     visual_character = ''Earthy, warm, grounded, hoppy-golden'',
     primary_colors = [''Rich brown'', ''Golden-amber'', ''Earth tones''],
     color_specs = \<lparr>
       primary_palette = ''Rich browns (35%), golden-amber (25%), deep earth (20%), subtle greens (10%), warm accents (10%)'',
       saturation = ''Medium (65-75%)'',
       luminosity = ''Medium (50-65%)'',
       boundaries = ''Soft-to-medium transitions'',
       secondary_accents = ''Hoppy gold, muted sage, warm copper'',
       color_quality = ''Warm, substantial, golden translucence''
     \<rparr>,
     composition = ''Complex interlocking forms, earthy grounding, natural flow'',
     temporal_qualities = \<lparr>
       volatility = ''Low volatility - sesquiterpene'',
       persistence = ''Long-lasting like caryophyllene'',
       stages = [
         (''fresh'', \<lparr>
           duration = ''0-12 hours'',
           description = ''Rich golden-brown saturation, warmest amber highlights'',
           saturation_adjustment = 1.0,
           luminosity_adjustment = 1.0,
           edge_quality = ''Soft-defined''
         \<rparr>),
         (''active'', \<lparr>
           duration = ''12-48 hours'',
           description = ''Saturation holding steady, complexity visible'',
           saturation_adjustment = 0.88,
           luminosity_adjustment = 0.95,
           edge_quality = ''Soft-defined''
         \<rparr>),
         (''fading'', \<lparr>
           duration = ''48-72 hours'',
           description = ''Cooling from gold to neutral brown'',
           saturation_adjustment = 0.65,
           luminosity_adjustment = 0.8,
           edge_quality = ''Soft''
         \<rparr>),
         (''traces'', \<lparr>
           duration = ''72+ hours'',
           description = ''Deep muted browns remain'',
           saturation_adjustment = 0.35,
           luminosity_adjustment = 0.6,
           edge_quality = ''Soft''
         \<rparr>)
       ]
     \<rparr>,
     master_prompt = ''Humulene generates complex, earthy compositions in golden-browns, warm earth tones, subtle herbal greens, and amber highlights. As a sesquiterpene isomer of caryophyllene, humulene shares similar structural complexity and visual density, but reads distinctly more earthy and hoppy-golden rather than deeply burgundy and spiced. Saturation is medium with medium luminosity, creating substantial aesthetic. Boundaries are softer than caryophyllene, reflecting humulene'' @ [CHR 0x27] @ ''s slightly different spatial configuration. The palette maintains warm golden undertones throughout. Composition suggests herbal grounding and transformation (fermentation) rather than deep mystery. Like other sesquiterpenes, humulene persists significantly longer than monoterpenes, maintaining warm golden-brown complexity over 48+ hours before gradually transitioning to simpler muted earth tones.'',
     chemical_communication = ''Signals hop plant presence and fermentation; grounding/transformation quality'',
     fusion_strength = ''Strong - works well with earthy, grounded, natural subjects'',
     semantic_bridges = [''hoppy warmth'', ''earthy grounding'', ''fermentation transformation'', ''herbal complexity'', ''golden presence'']
   \<rparr>"

definition ocimene_record :: terpene where
  "ocimene_record = \<lparr>
     name = ''Ocimene'',
     molecular_formula = ''C'' @ [CHR 0xE2, CHR 0x82, CHR 0x81, CHR 0xE2, CHR 0x82, CHR 0x80] @ ''H'' @ [CHR 0xE2, CHR 0x82, CHR 0x81, CHR 0xE2, CHR 0x82, CHR 0x86],
     classification = ''Acyclic monoterpene'',
     scent_profile = ''Floral, sweet, herbal, fruity, slightly spicy, fresh, delicate'',
     visual_character = ''Delicate, flowing, pastel, energetic'',
     primary_colors = [''Pale pink'', ''Soft green'', ''Creamy white''],
     color_specs = \<lparr>
       primary_palette = ''Soft pastels'' @ [CHR 0xE2, CHR 0x80, CHR 0x94] @ ''pale pinks (25%), soft greens (25%), creamy whites (25%), pale yellows (15%), soft lavenders (10%)'',
       saturation = ''Low (45-60%)'',
       luminosity = ''High (75-90%)'',
       boundaries = ''Soft, watercolor-like'',
       secondary_accents = ''Pale sage, soft apricot, cream'',
       color_quality = ''Translucent, delicate, luminous''
     \<rparr>,
     composition = ''Flowing graceful forms with subtle energetic quality, delicate but dynamic'',
     temporal_qualities = \<lparr>
       volatility = ''Highly volatile'',
       persistence = ''Quick dissipation'',
       stages = [
         (''fresh'', \<lparr>
           duration = ''0-4 hours'',
           description = ''Richest pastel saturation, brightest highlights, most color'',
           saturation_adjustment = 1.0,
           luminosity_adjustment = 1.0,
           edge_quality = ''Soft''
         \<rparr>),
         (''active'', \<lparr>
           duration = ''4-10 hours'',
           description = ''Slight softening, delicate quality increasing'',
           saturation_adjustment = 0.75,
           luminosity_adjustment = 0.95,
           edge_quality = ''Soft''
         \<rparr>),
         (''fading'', \<lparr>
           duration = ''10-20 hours'',
           description = ''Pastels becoming pale and washed out'',
           saturation_adjustment = 0.35,
           luminosity_adjustment = 0.85,
           edge_quality = ''Very soft''
         \<rparr>),
         (''traces'', \<lparr>
           duration = ''20+ hours'',
           description = ''Ghost-like pale washes'',
           saturation_adjustment = 0.1,
           luminosity_adjustment = 0.75,
           edge_quality = ''Very soft''
         \<rparr>)
       ]
     \<rparr>,
     master_prompt = ''Ocimene generates delicate, luminous compositions in soft pastels (pale pinks, soft greens, creams, pale yellows, soft lavenders). The acyclic structure with extended conjugation creates flowing, graceful forms suggesting subtle energetic quality'' @ [CHR 0xE2, CHR 0x80, CHR 0x94] @ ''not rigid, but gently dynamic. Saturation is deliberately kept low (45-60%) while luminosity remains very high (75-90%), creating ethereal aesthetic. Boundaries are extremely soft and watercolor-like. The composition reads as delicate and communicative rather than forceful, with graceful motion throughout. Like other volatile monoterpenes, ocimene'' @ [CHR 0x27] @ ''s brightness rapidly fades over 10-20 hours, with rich pastels transitioning through pale washes to ghost-like traces before dissipating.'',
     chemical_communication = ''Signals plant attraction and nuanced communication; graceful/energetic quality'',
     fusion_strength = ''Medium-strong - works well with delicate, dynamic, artistic concepts'',
     semantic_bridges = [''graceful motion'', ''delicate energy'', ''subtle communication'', ''pastoral softness'', ''energetic flow'']
   \<rparr>"

definition sabinene_record :: terpene where
  "sabinene_record = \<lparr>
     name = ''Sabinene'',
     molecular_formula = ''C'' @ [CHR 0xE2, CHR 0x82, CHR 0x81, CHR 0xE2, CHR 0x82, CHR 0x80] @ ''H'' @ [CHR 0xE2, CHR 0x82, CHR 0x81, CHR 0xE2, CHR 0x82, CHR 0x86],
     classification = ''Bicyclic monoterpene with exocyclic double bond'',
     scent_profile = ''Spicy, peppery, warm, woody, slightly bitter, herbal, sharp'',
     visual_character = ''Warm, spiced, sharp, dynamic'',
     primary_colors = [''Warm brown'', ''Spice red'', ''Golden tone''],
     color_specs = \<lparr>
       primary_palette = ''Warm browns (30%), spice reds (25%), golden tones (20%), dark earth (15%), warm highlights (10%)'',
       saturation = ''Medium-high (70-80%)'',
       luminosity = ''Medium (55-70%)'',
       boundaries = ''Mixed - dynamic quality'',
       secondary_accents = ''Peppery red, golden amber, warm copper'',
       color_quality = ''Warm, spiced, translucent amber''
     \<rparr>,
     composition = ''Warm geometric forms with outward-reaching quality, dynamic structural tension'',
     temporal_qualities = \<lparr>
       volatility = ''Moderately volatile'',
       persistence = ''Slower dissipation than limonene'',
       stages = [
         (''fresh'', \<lparr>
           duration = ''0-5 hours'',
           description = ''Richest red and golden saturation, sharpest contrasts'',
           saturation_adjustment = 1.0,
           luminosity_adjustment = 1.0,
           edge_quality = ''Sharp''
         \<rparr>),
         (''active'', \<lparr>
           duration = ''5-12 hours'',
           description = ''Saturation holding, warmth persisting'',
           saturation_adjustment = 0.82,
           luminosity_adjustment = 0.92,
           edge_quality = ''Mostly sharp''
         \<rparr>),
         (''fading'', \<lparr>
           duration = ''12-24 hours'',
           description = ''Reds fading to browns, highlights duller'',
           saturation_adjustment = 0.5,
           luminosity_adjustment = 0.75,
           edge_quality = ''Mixed''
         \<rparr>),
         (''traces'', \<lparr>
           duration = ''24+ hours'',
           description = ''Warm browns remain, peppery character gone'',
           saturation_adjustment = 0.25,
           luminosity_adjustment = 0.6,
           edge_quality = ''Soft''
         \<rparr>)
       ]
     \<rparr>,
     master_prompt = ''Sabinene generates warm, dynamically-structured compositions in spice reds, golden tones, warm browns, and rich earth tones. The bicyclic structure with exocyclic double bond creates visual tension between contained structure and outward-reaching energy. Saturation is medium-high with medium luminosity, creating substantial warm aesthetic. Boundaries are deliberately mixed'' @ [CHR 0xE2, CHR 0x80, CHR 0x94] @ ''some areas crisp and sharp, others soft'' @ [CHR 0xE2, CHR 0x80, CHR 0x94] @ ''reflecting dynamic structural complexity. The palette maintains active warmth throughout, suggesting pepper and spice presence. Composition reads as containing active heat rather than passive grounding. Moderately volatile nature means rich red and golden saturation gradually transitions to warmer, duller browns over 12-24 hours, with peppery sharpness fading but warm undertones persisting longer.'',
     chemical_communication = ''Signals spice plant presence and peppery defense; warming/dynamic quality'',
     fusion_strength = ''Strong - works well with warm, active, spiced concepts'',
     semantic_bridges = [''active warmth'', ''peppery presence'', ''dynamic heat'', ''spiced complexity'', ''warm sharpness'']
   \<rparr>"

definition geraniol_record :: terpene where
  "geraniol_record = \<lparr>
     name = ''Geraniol'',
     molecular_formula = ''C'' @ [CHR 0xE2, CHR 0x82, CHR 0x81, CHR 0xE2, CHR 0x82, CHR 0x80] @ ''H'' @ [CHR 0xE2, CHR 0x82, CHR 0x81, CHR 0xE2, CHR 0x82, CHR 0x88] @ ''O'',
     classification = ''Acyclic monoterpene alcohol'',
     scent_profile = ''Floral, rose-like, sweet, slightly fruity, fresh, delicate, sophisticated'',
     visual_character = ''Romantic, warm, ethereal, sophisticated'',
     primary_colors = [''Soft rose pink'', ''Warm cream'', ''Pale peach''],
     color_specs = \<lparr>
       primary_palette = ''Soft rose pinks (35%), warm creams (25%), pale peachy tones (20%), soft lavenders (15%), white highlights (5%)'',
       saturation = ''Low-medium (55-70%)'',
       luminosity = ''High (75-90%)'',
       boundaries = ''Soft romantic transitions'',
       secondary_accents = ''Pale rose-mauve, warm peach, soft cream'',
       color_quality = ''Translucent, warm, delicate''
     \<rparr>,
     composition = ''Flowing graceful forms with warm presence, romantic aesthetic'',
     temporal_qualities = \<lparr>
       volatility = ''Moderately volatile'',
       persistence = ''Persists slightly longer than some monoterpenes'',
       stages = [
         (''fresh'', \<lparr>
           duration = ''0-6 hours'',
           description = ''Richest rose-pink saturation, warmest peachy tones'',
           saturation_adjustment = 1.0,
           luminosity_adjustment = 1.0,
           edge_quality = ''Soft''
         \<rparr>),
         (''active'', \<lparr>
           duration = ''6-12 hours'',
           description = ''Saturation holding, rose character remaining'',
           saturation_adjustment = 0.85,
           luminosity_adjustment = 0.95,
           edge_quality = ''Soft''
         \<rparr>),
         (''fading'', \<lparr>
           duration = ''12-24 hours'',
           description = ''Pinks becoming paler and more mauve-like'',
           saturation_adjustment = 0.5,
           luminosity_adjustment = 0.85,
           edge_quality = ''Soft''
         \<rparr>),
         (''traces'', \<lparr>
           duration = ''24+ hours'',
           description = ''Pale lavender-creams remain'',
           saturation_adjustment = 0.2,
           luminosity_adjustment = 0.75,
           edge_quality = ''Very soft''
         \<rparr>)
       ]
     \<rparr>,
     master_prompt = ''Geraniol generates sophisticated, romantic compositions in soft rose pinks, warm creams, pale peach tones, and soft lavenders. The acyclic alcohol structure (like linalool) creates graceful, flowing forms, but geraniol reads warmer and more romantic than linalool'' @ [CHR 0x27] @ ''s cool lavender. Saturation is low-medium with high luminosity, creating ethereal airy aesthetic. The composition maintains translucence throughout'' @ [CHR 0xE2, CHR 0x80, CHR 0x94] @ ''forms appear delicate and attractive rather than substantial. Boundaries are soft and romantic, suggesting gentle transitions and blooming quality. Color palette emphasizes warmth within delicate framework. Moderate volatility means rich rose-pink saturation and peachy warmth persist slightly longer than some monoterpenes, gradually fading to pale lavender-creams over 12-24 hours.'',
     chemical_communication = ''Signals flower attraction and romantic appeal; inviting/beautiful quality'',
     fusion_strength = ''Strong - works well with romantic, delicate, warm concepts'',
     semantic_bridges = [''romantic presence'', ''floral beauty'', ''warm delicacy'', ''graceful attraction'', ''blooming quality'']
   \<rparr>"

definition thymol_record :: terpene where
  "thymol_record = \<lparr>
     name = ''Thymol'',
     molecular_formula = ''C'' @ [CHR 0xE2, CHR 0x82, CHR 0x81, CHR 0xE2, CHR 0x82, CHR 0x80] @ ''H'' @ [CHR 0xE2, CHR 0x82, CHR 0x81, CHR 0xE2, CHR 0x82, CHR 0x84] @ ''O'',
     classification = ''Monoterpene phenol'',
     scent_profile = ''Herbal, thyme-like, warm, slightly spicy, medicinal, antiseptic, complex, intense'',
     visual_character = ''Structured, medicinal, herbal-sophisticated, potent'',
     primary_colors = [''Complex green'', ''Warm brown'', ''Golden-amber''],
     color_specs = \<lparr>
       primary_palette = ''Complex greens (35%), warm browns (30%), golden-amber (20%), earth tones (15%)'',
       saturation = ''Medium-high (70-80%)'',
       luminosity = ''Medium (55-70%)'',
       boundaries = ''Medium sharpness - defined but not crystalline'',
       secondary_accents = ''Warm sage, medicinal copper, deep bronze'',
       color_quality = ''Warm, complex, translucent amber''
     \<rparr>,
     composition = ''Structured geometric forms, herbal complexity with medicinal precision'',
     temporal_qualities = \<lparr>
       volatility = ''Lower volatility - phenolic compound'',
       persistence = ''Moderate persistence'',
       stages = [
         (''fresh'', \<lparr>
           duration = ''0-8 hours'',
           description = ''Richest green and golden saturation, sharpest definition'',
           saturation_adjustment = 1.0,
           luminosity_adjustment = 1.0,
           edge_quality = ''Defined''
         \<rparr>),
         (''active'', \<lparr>
           duration = ''8-24 hours'',
           description = ''Saturation holding, complexity visible'',
           saturation_adjustment = 0.85,
           luminosity_adjustment = 0.95,
           edge_quality = ''Defined''
         \<rparr>),
         (''fading'', \<lparr>
           duration = ''24-48 hours'',
           description = ''Greens muting, golden tones warming and dulling'',
           saturation_adjustment = 0.55,
           luminosity_adjustment = 0.8,
           edge_quality = ''Soft''
         \<rparr>),
         (''traces'', \<lparr>
           duration = ''48+ hours'',
           description = ''Warm browns, herbal character faded'',
           saturation_adjustment = 0.3,
           luminosity_adjustment = 0.65,
           edge_quality = ''Soft''
         \<rparr>)
       ]
     \<rparr>,
     master_prompt = ''Thymol generates structured, sophisticated compositions in complex greens, warm browns, golden-ambers, and earth tones. The phenolic aromatic ring structure creates geometric precision and structural rigidity absent in typical terpenes. Saturation is medium-high with medium luminosity, creating substantial warm aesthetic with significant visual weight. Boundaries are defined'' @ [CHR 0xE2, CHR 0x80, CHR 0x94] @ ''sharp enough to suggest medicinal clarity, but not crystalline. The composition reads as intentionally potent and historically significant rather than organically growing. Warm undertones persist throughout. Unlike more volatile monoterpenes, thymol'' @ [CHR 0x27] @ ''s lower volatility means the composition maintains its rich complex saturation and medicinal character over 24+ hours, gradually warming and simplifying to muted earth tones over extended duration.'',
     chemical_communication = ''Signals antimicrobial presence and medicinal potency; structured/potent quality'',
     fusion_strength = ''Medium-strong - works well with intellectual, medicinal, historical concepts'',
     semantic_bridges = [''medicinal potency'', ''structured wisdom'', ''herbal sophistication'', ''warming clarity'', ''intentional presence'']
   \<rparr>"

definition TERPENES :: "(string \<times> terpene) list" where
  "TERPENES = [
     (''limonene'', limonene_record),
     (''pinene'', pinene_record),
     (''myrcene'', myrcene_record),
     (''caryophyllene'', caryophyllene_record),
     (''linalool'', linalool_record),
     (''terpinolene'', terpinolene_record),
     (''humulene'', humulene_record),
     (''ocimene'', ocimene_record),
     (''sabinene'', sabinene_record),
     (''geraniol'', geraniol_record),
     (''thymol'', thymol_record)
   ]"

subsection \<open>Dictionaries and their JSON form\<close>

text \<open>\<^verbatim>\<open>key in d\<close> and \<^verbatim>\<open>d[key]\<close> for a key that may be \<^verbatim>\<open>None\<close>: no dictionary
  of the table has the key \<^verbatim>\<open>None\<close>.\<close>

definition dict_get :: "(string \<times> 'v) list \<Rightarrow> string option \<Rightarrow> 'v option" where
  "dict_get d key = (case key of None \<Rightarrow> None | Some k \<Rightarrow> map_of d k)"

text \<open>\<^verbatim>\<open>d[k] = v\<close>: an existing key keeps its place, a new key goes last.\<close>

fun dict_set :: "(string \<times> 'v) list \<Rightarrow> string \<Rightarrow> 'v \<Rightarrow> (string \<times> 'v) list" where
  "dict_set [] k v = [(k, v)]"
| "dict_set ((k', v') # kvs) k v =
     (if k' = k then (k', v) # kvs else (k', v') # dict_set kvs k v)"

definition json_of_stage :: "stage_record \<Rightarrow> json" where
  "json_of_stage sd = JObj [
     (''duration'', JStr (duration sd)),
     (''description'', JStr (description sd)),
     (''saturation_adjustment'', JNum (saturation_adjustment sd)),
     (''luminosity_adjustment'', JNum (luminosity_adjustment sd)),
     (''edge_quality'', JStr (edge_quality sd))]"

definition items_of_color_specs :: "color_specs_record \<Rightarrow> (string \<times> json) list" where
  "items_of_color_specs cs = [
     (''primary_palette'', JStr (primary_palette cs)),
     (''saturation'', JStr (saturation cs)),
     (''luminosity'', JStr (luminosity cs)),
     (''boundaries'', JStr (boundaries cs)),
     (''secondary_accents'', JStr (secondary_accents cs)),
     (''color_quality'', JStr (color_quality cs))]"

definition json_of_stages :: "(string \<times> stage_record) list \<Rightarrow> json" where
  "json_of_stages st = JObj (map (\<lambda>(k, sd). (k, json_of_stage sd)) st)"

definition json_of_temporal_qualities :: "temporal_qualities_record \<Rightarrow> json" where
  "json_of_temporal_qualities tq = JObj [
     (''volatility'', JStr (volatility tq)),
     (''persistence'', JStr (persistence tq)),
     (''stages'', json_of_stages (stages tq))]"

definition json_of_terpene :: "terpene \<Rightarrow> json" where
  "json_of_terpene t = JObj [
     (''name'', JStr (name t)),
     (''molecular_formula'', JStr (molecular_formula t)),
     (''classification'', JStr (classification t)),
     (''scent_profile'', JStr (scent_profile t)),
     (''visual_character'', JStr (visual_character t)),
     (''primary_colors'', JArr (map JStr (primary_colors t))),
     (''color_specs'', JObj (items_of_color_specs (color_specs t))),
     (''composition'', JStr (composition t)),
     (''temporal_qualities'', json_of_temporal_qualities (temporal_qualities t)),
     (''master_prompt'', JStr (master_prompt t)),
     (''chemical_communication'', JStr (chemical_communication t)),
     (''fusion_strength'', JStr (fusion_strength t)),
     (''semantic_bridges'', JArr (map JStr (semantic_bridges t)))]"

definition json_of_stage_name :: "string option \<Rightarrow> json" where
  "json_of_stage_name temporal_stage =
     (case temporal_stage of None \<Rightarrow> JNull | Some s \<Rightarrow> JStr s)"

subsection \<open>Tools\<close>

text \<open>The failure \<^verbatim>\<open>{"error": f"Terpene '{terpene_name}' not found"}\<close>.\<close>

definition not_found :: "string \<Rightarrow> json" where
  "not_found terpene_name =
     JObj [(''error'', JStr (''Terpene '' @ [CHR 0x27] @ terpene_name @ [CHR 0x27] @ '' not found''))]"

definition get_terpene :: "string \<Rightarrow> json" where
  "get_terpene terpene_name =
     (let terpene_id = str_strip (str_lower terpene_name) in
      case map_of TERPENES terpene_id of
        None \<Rightarrow> not_found terpene_name
      | Some t \<Rightarrow> json_of_terpene t)"

definition get_master_prompt :: "string \<Rightarrow> string option \<Rightarrow> py_error + json" where
  "get_master_prompt terpene_name temporal_stage =
     (let terpene_id = str_strip (str_lower terpene_name) in
      case map_of TERPENES terpene_id of
        None \<Rightarrow> Inr (not_found terpene_name)
      | Some terpene \<Rightarrow>
          (let master = master_prompt terpene;
               st = stages (temporal_qualities terpene);
               unmodified =
                 (case map_of st ''fresh'' of
                    None \<Rightarrow> Inl (KeyError ''fresh'')
                  | Some fresh \<Rightarrow>
                      Inr (JObj [
                        (''terpene'', JStr (name terpene)),
                        (''temporal_stage'', json_of_stage_name temporal_stage),
                        (''master_prompt'', JStr master),
                        (''stage_adjustments'', json_of_stage fresh)]))
           in case temporal_stage of
                None \<Rightarrow> unmodified
              | Some s \<Rightarrow>
                  (case (if s \<noteq> ''fresh'' then map_of st s else None) of
                     None \<Rightarrow> unmodified
                   | Some stage_data \<Rightarrow>
                       (let temporal_note =
                              [CHR 0x0A, CHR 0x0A] @ ''['' @ str_upper s @ '' STAGE: ''
                                @ description stage_data @ '']''
                        in Inr (JObj [
                             (''terpene'', JStr (name terpene)),
                             (''temporal_stage'', JStr s),
                             (''master_prompt'', JStr (master @ temporal_note)),
                             (''stage_adjustments'', json_of_stage stage_data)])))))"

definition get_color_palette :: "string \<Rightarrow> string option \<Rightarrow> json" where
  "get_color_palette terpene_name temporal_stage =
     (let terpene_id = str_strip (str_lower terpene_name) in
      case map_of TERPENES terpene_id of
        None \<Rightarrow> not_found terpene_name
      | Some terpene \<Rightarrow>
          (let palette = items_of_color_specs (color_specs terpene);
               palette' =
                 (case dict_get (stages (temporal_qualities terpene)) temporal_stage of
                    Some stage_data \<Rightarrow>
                      dict_set palette ''temporal_adjustments'' (JObj [
                        (''saturation_multiplier'', JNum (saturation_adjustment stage_data)),
                        (''luminosity_multiplier'', JNum (luminosity_adjustment stage_data)),
                        (''edge_quality'', JStr (edge_quality stage_data)),
                        (''stage_description'', JStr (description stage_data))])
                  | None \<Rightarrow> palette)
           in JObj [
                (''terpene'', JStr (name terpene)),
                (''temporal_stage'', json_of_stage_name temporal_stage),
                (''color_specs'', JObj palette')]))"

text \<open>The dictionary \<^verbatim>\<open>{"terpene1": a, "terpene2": b}\<close> that each row of a comparison is.\<close>

definition pair_json :: "json \<Rightarrow> json \<Rightarrow> json" where
  "pair_json a b = JObj [(''terpene1'', a), (''terpene2'', b)]"

definition compare_terpenes :: "string \<Rightarrow> string \<Rightarrow> json" where
  "compare_terpenes terpene1_name terpene2_name =
     (let t1_id = str_strip (str_lower terpene1_name);
          t2_id = str_strip (str_lower terpene2_name)
      in case (map_of TERPENES t1_id, map_of TERPENES t2_id) of
           (Some t1, Some t2) \<Rightarrow>
             JObj [
               (''terpene1'', JStr (name t1)),
               (''terpene2'', JStr (name t2)),
               (''comparison'', JObj [
                  (''scent_profiles'', pair_json (JStr (scent_profile t1)) (JStr (scent_profile t2))),
                  (''visual_character'',
                     pair_json (JStr (visual_character t1)) (JStr (visual_character t2))),
                  (''primary_colors'',
                     pair_json (JArr (map JStr (primary_colors t1))) (JArr (map JStr (primary_colors t2)))),
                  (''saturation_range'',
                     pair_json (JStr (saturation (color_specs t1))) (JStr (saturation (color_specs t2)))),
                  (''luminosity_range'',
                     pair_json (JStr (luminosity (color_specs t1))) (JStr (luminosity (color_specs t2)))),
                  (''volatility'',
                     pair_json (JStr (volatility (temporal_qualities t1)))
                               (JStr (volatility (temporal_qualities t2)))),
                  (''composition_style'', pair_json (JStr (composition t1)) (JStr (composition t2)))])]
         | _ \<Rightarrow> JObj [(''error'', JStr ''One or both terpenes not found'')])"

text \<open>The loop of \<^verbatim>\<open>suggest_terpene_for_concept\<close> over \<^verbatim>\<open>keyword_map.items()\<close>,
  appending to \<^verbatim>\<open>suggestions\<close>.\<close>

definition keyword_map :: "(string \<times> string) list" where
  "keyword_map = [
     (''bright|visible|broadcast|radiant|citrus|energy'', ''limonene''),
     (''defense|defensive|barrier|fortress|structure|precise'', ''pinene''),
     (''flow|organic|movement|dance|growth|earthy'', ''myrcene''),
     (''complex|sophisticated|depth|intelligent|spiced|warm'', ''caryophyllene''),
     (''delicate|ethereal|soft|calming|spiritual|romantic'', ''linalool''),
     (''fresh|crisp|sophisticated|intellectual|herbal'', ''terpinolene''),
     (''grounded|hoppy|ferment|transform|natural'', ''humulene''),
     (''delicate|flowing|graceful|energetic|artistic'', ''ocimene''),
     (''warm|spiced|dynamic|heat|pepper'', ''sabinene''),
     (''romantic|floral|beautiful|inviting|blooming'', ''geraniol''),
     (''medicinal|potent|herbal|historical|intentional'', ''thymol'')]"

definition fires :: "string \<Rightarrow> string \<Rightarrow> bool" where
  "fires keywords concept_lower =
     list_ex (\<lambda>kw. str_contains concept_lower kw) (str_split (CHR ''|'') keywords)"

fun keyword_loop ::
  "(string \<times> string) list \<Rightarrow> string \<Rightarrow> string \<Rightarrow> json list \<Rightarrow> py_error + json list" where
  "keyword_loop [] concept concept_lower suggestions = Inr suggestions"
| "keyword_loop ((keywords, terpene_id) # rest) concept concept_lower suggestions =
     (if fires keywords concept_lower then
        (case map_of TERPENES terpene_id of
           None \<Rightarrow> Inl (KeyError terpene_id)
         | Some t \<Rightarrow>
             keyword_loop rest concept concept_lower
               (suggestions @ [JObj [
                  (''terpene'', JStr (name t)),
                  (''terpene_id'', JStr terpene_id),
                  (''reason'', JStr (''Concept contains '' @ [CHR 0x27] @ concept @ [CHR 0x27]
                     @ '' which aligns with '' @ visual_character t @ '' aesthetic''))]]))
      else keyword_loop rest concept concept_lower suggestions)"

text \<open>The comprehension over \<^verbatim>\<open>list(TERPENES.keys())[:5]\<close>.\<close>

fun default_suggestions :: "string list \<Rightarrow> py_error + json list" where
  "default_suggestions [] = Inr []"
| "default_suggestions (t_id # ids) =
     (case map_of TERPENES t_id of
        None \<Rightarrow> Inl (KeyError t_id)
      | Some t \<Rightarrow>
          (case default_suggestions ids of
             Inl e \<Rightarrow> Inl e
           | Inr js \<Rightarrow>
               Inr (JObj [
                 (''terpene'', JStr (name t)),
                 (''terpene_id'', JStr t_id),
                 (''fusion_strength'', JStr (fusion_strength t))] # js)))"

definition suggestion_note :: string where
  "suggestion_note = ''These are suggestions based on semantic bridges. Try different terpenes to see which works best for your specific intent.''"

definition suggest_terpene_for_concept :: "string \<Rightarrow> py_error + json" where
  "suggest_terpene_for_concept concept =
     (let concept_lower = str_lower concept in
      case keyword_loop keyword_map concept concept_lower [] of
        Inl e \<Rightarrow> Inl e
      | Inr suggestions \<Rightarrow>
          (case (if suggestions = [] then default_suggestions (take 5 (map fst TERPENES))
                 else Inr suggestions) of
             Inl e \<Rightarrow> Inl e
           | Inr suggestions' \<Rightarrow>
               Inr (JObj [
                 (''concept'', JStr concept),
                 (''suggestions'', JArr suggestions'),
                 (''note'', JStr suggestion_note)])))"

subsection \<open>Floats\<close>

text \<open>
  A finite Python \<^verbatim>\<open>float\<close> is an IEEE 754 double; the model holds it as the
  rational number that it is exactly. \<open>double_of x\<close> is the double nearest to the
  rational \<open>x\<close>, a tie going to the even significand: with \<open>2 ^ e \<le> \<bar>x\<bar> < 2 ^ (e + 1)\<close>
  the doubles around \<open>x\<close> are the multiples of \<open>2 ^ (e - 52)\<close>, and below
  \<open>2 ^ (- 1022)\<close> those of \<open>2 ^ (- 1074)\<close>. A float literal of the code is
  \<open>double_of\<close> of the decimal written, and \<^verbatim>\<open>x * y\<close>, \<^verbatim>\<open>x + y\<close>, \<^verbatim>\<open>x - y\<close> on
  floats are \<open>double_of\<close> of the exact result. Overflow is not modelled: the code
  computes only with an intensity between 0 and 1.
\<close>

fun ilog2 :: "nat \<Rightarrow> nat" where
  "ilog2 n = (if n < 2 then 0 else Suc (ilog2 (n div 2)))"

declare ilog2.simps [simp del]

definition pow2 :: "int \<Rightarrow> rat" where
  "pow2 e = (if 0 \<le> e then 2 ^ nat e else 1 / 2 ^ nat (- e))"

text \<open>For \<open>x \<noteq> 0\<close>, the \<open>e\<close> with \<open>2 ^ e \<le> \<bar>x\<bar> < 2 ^ (e + 1)\<close>.\<close>

definition float_exponent :: "rat \<Rightarrow> int" where
  "float_exponent x =
     (let a = \<bar>x\<bar> in
      if 1 \<le> a then int (ilog2 (nat \<lfloor>a\<rfloor>))
      else (let k = int (ilog2 (nat \<lfloor>1 / a\<rfloor>))
            in if pow2 (- k) = a then - k else - k - 1))"

definition round_half_even :: "rat \<Rightarrow> int" where
  "round_half_even x =
     (let f = \<lfloor>x\<rfloor>; r = x - of_int f
      in if r < 1 / 2 then f else if 1 / 2 < r then f + 1 else if even f then f else f + 1)"

definition double_of :: "rat \<Rightarrow> rat" where
  "double_of x =
     (if x = 0 then 0
      else (let e = max (float_exponent x) (- 1022);
                ulp = pow2 (e - 52)
            in of_int (round_half_even (x / ulp)) * ulp))"

definition is_double :: "rat \<Rightarrow> bool" where
  "is_double x = (double_of x = x)"

definition fmul :: "rat \<Rightarrow> rat \<Rightarrow> rat" where
  "fmul x y = double_of (x * y)"

definition fadd :: "rat \<Rightarrow> rat \<Rightarrow> rat" where
  "fadd x y = double_of (x + y)"

definition fsub :: "rat \<Rightarrow> rat \<Rightarrow> rat" where
  "fsub x y = double_of (x - y)"

text \<open>\<^verbatim>\<open>round(x, 2)\<close> on a float: the exact value of \<open>x\<close> is rounded to two
  decimals, a tie going to the even neighbour, and the decimal is read as a float.\<close>

definition round2 :: "rat \<Rightarrow> rat" where
  "round2 x = double_of (of_int (round_half_even (x * 100)) / 100)"

text \<open>The keys of the caption dictionary are floats that their literals give
  exactly.\<close>

definition intensity_captions :: "(rat \<times> string) list" where
  "intensity_captions = [
     (0.0, ''Ignored - use base prompt only''),
     (0.25, ''Subtle - gentle hints of terpene character''),
     (0.5, ''Balanced - terpene reshapes execution while subject remains primary''),
     (0.75, ''Strong - terpene properties heavily influence all aspects''),
     (1.0, ''Maximum - terpene dominates while subject remains recognizable'')]"

text \<open>
  \<^verbatim>\<open>apply_intensity_modifier\<close>. The argument \<open>intensity\<close> is a float, so a rational
  with \<open>is_double intensity\<close>. The text that an f-string gives for a float is not
  modelled: it is the parameter \<open>float_str\<close>, used only in the caption of an intensity
  that is none of the five anchors.
\<close>

definition apply_intensity_modifier :: "(rat \<Rightarrow> string) \<Rightarrow> string \<Rightarrow> rat \<Rightarrow> json" where
  "apply_intensity_modifier float_str terpene_name intensity =
     (if \<not> (0 \<le> intensity \<and> intensity \<le> 1) then
        JObj [(''error'', JStr ''Intensity must be between 0 and 1'')]
      else
        (let terpene_id = str_strip (str_lower terpene_name) in
         case map_of TERPENES terpene_id of
           None \<Rightarrow> not_found terpene_name
         | Some terpene \<Rightarrow>
             JObj [
               (''terpene'', JStr (name terpene)),
               (''intensity_level'', JNum intensity),
               (''intensity_description'',
                  JStr (case map_of intensity_captions (round2 intensity) of
                          Some caption \<Rightarrow> caption
                        | None \<Rightarrow> ''Custom intensity '' @ float_str intensity)),
               (''application'', JObj [
                  (''saturation_modifier'', JNum intensity),
                  (''luminosity_modifier'',
                     JNum (fadd (double_of 0.7) (fmul intensity (double_of 0.3)))),
                  (''edge_softness_modifier'',
                     JNum (fsub 1 (fmul intensity (double_of 0.5)))),
                  (''composition_emphasis'',
                     JStr (if intensity < double_of 0.3 then ''Minimal''
                           else if intensity < double_of 0.7 then ''Balanced''
                           else ''Maximum''))])]))"

subsection \<open>Predicates used to state the properties\<close>

text \<open>The stage keys of the signature
  \<^verbatim>\<open>Literal["fresh", "active", "fading", "traces"]\<close>, in that order.\<close>

definition stage_order :: "string list" where
  "stage_order = [''fresh'', ''active'', ''fading'', ''traces'']"

fun non_increasing :: "rat list \<Rightarrow> bool" where
  "non_increasing (x # y # ys) = (y \<le> x \<and> non_increasing (y # ys))"
| "non_increasing _ = True"

definition in_unit_interval :: "rat \<Rightarrow> bool" where
  "in_unit_interval x = (0 \<le> x \<and> x \<le> 1)"

text \<open>What the decay invariant asks of one entry of the table.\<close>

definition decays :: "terpene \<Rightarrow> bool" where
  "decays t =
     (let st = stages (temporal_qualities t) in
        map fst st = stage_order
      \<and> map_option saturation_adjustment (map_of st ''fresh'') = Some 1
      \<and> map_option luminosity_adjustment (map_of st ''fresh'') = Some 1
      \<and> list_all (\<lambda>(s, sd). in_unit_interval (saturation_adjustment sd)
                           \<and> in_unit_interval (luminosity_adjustment sd)) st
      \<and> non_increasing (map (\<lambda>(s, sd). saturation_adjustment sd) st)
      \<and> non_increasing (map (\<lambda>(s, sd). luminosity_adjustment sd) st))"

section \<open>Properties\<close>

subsection \<open>Facts about the table\<close>

lemma TERPENES_keys:
  "map fst TERPENES = [''limonene'', ''pinene'', ''myrcene'', ''caryophyllene'', ''linalool'',
     ''terpinolene'', ''humulene'', ''ocimene'', ''sabinene'', ''geraniol'', ''thymol'']"
  by (simp add: TERPENES_def)

lemma decays_limonene: "decays limonene_record"
  by (simp add: decays_def limonene_record_def stage_order_def in_unit_interval_def)

lemma decays_pinene: "decays pinene_record"
  by (simp add: decays_def pinene_record_def stage_order_def in_unit_interval_def)

lemma decays_myrcene: "decays myrcene_record"
  by (simp add: decays_def myrcene_record_def stage_order_def in_unit_interval_def)

lemma decays_caryophyllene: "decays caryophyllene_record"
  by (simp add: decays_def caryophyllene_record_def stage_order_def in_unit_interval_def)

lemma decays_linalool: "decays linalool_record"
  by (simp add: decays_def linalool_record_def stage_order_def in_unit_interval_def)

lemma decays_terpinolene: "decays terpinolene_record"
  by (simp add: decays_def terpinolene_record_def stage_order_def in_unit_interval_def)

lemma decays_humulene: "decays humulene_record"
  by (simp add: decays_def humulene_record_def stage_order_def in_unit_interval_def)

lemma decays_ocimene: "decays ocimene_record"
  by (simp add: decays_def ocimene_record_def stage_order_def in_unit_interval_def)

lemma decays_sabinene: "decays sabinene_record"
  by (simp add: decays_def sabinene_record_def stage_order_def in_unit_interval_def)

lemma decays_geraniol: "decays geraniol_record"
  by (simp add: decays_def geraniol_record_def stage_order_def in_unit_interval_def)

lemma decays_thymol: "decays thymol_record"
  by (simp add: decays_def thymol_record_def stage_order_def in_unit_interval_def)

lemma decays_TERPENES: "list_all (\<lambda>(k, t). decays t) TERPENES"
  by (simp add: TERPENES_def decays_limonene decays_pinene decays_myrcene decays_caryophyllene
      decays_linalool decays_terpinolene decays_humulene decays_ocimene decays_sabinene
      decays_geraniol decays_thymol)

lemma stored_decays:
  assumes "map_of TERPENES k = Some t"
  shows "decays t"
proof -
  from assms have "(k, t) \<in> set TERPENES"
    by (rule map_of_SomeD)
  with decays_TERPENES show ?thesis
    by (auto simp: list_all_iff)
qed

lemma stored_stage_keys:
  assumes "map_of TERPENES k = Some t"
  shows "map fst (stages (temporal_qualities t)) = stage_order"
  using stored_decays [OF assms] by (simp add: decays_def Let_def)

lemma recognized_stage_found:
  assumes "map fst st = stage_order" and "s \<in> set stage_order"
  shows "\<exists>sd. map_of st s = Some sd"
proof -
  from assms have "s \<in> fst ` set st"
    by (metis set_map)
  then have "map_of st s \<noteq> None"
    by (simp add: map_of_eq_None_iff)
  then show ?thesis
    by auto
qed

lemma unrecognized_stage_missing:
  assumes "map fst st = stage_order" and "s \<notin> set stage_order"
  shows "map_of st s = None"
proof -
  from assms have "s \<notin> fst ` set st"
    by (metis set_map)
  then show ?thesis
    by (simp add: map_of_eq_None_iff)
qed

subsection \<open>Decay of the stage adjustments\<close>

text \<open>
  C1. In every entry of \<open>TERPENES\<close> the stages are \<open>fresh\<close>, \<open>active\<close>, \<open>fading\<close>,
  \<open>traces\<close> in this order; the fresh stage has saturation and luminosity adjustment
  1; every adjustment of every stage lies between 0 and 1; and along the stages both
  the saturation adjustments and the luminosity adjustments never increase.
\<close>

theorem stage_adjustments_decay:
  "\<forall>(k, t) \<in> set TERPENES.
     map fst (stages (temporal_qualities t)) = [''fresh'', ''active'', ''fading'', ''traces'']
   \<and> map_option saturation_adjustment (map_of (stages (temporal_qualities t)) ''fresh'') = Some 1
   \<and> map_option luminosity_adjustment (map_of (stages (temporal_qualities t)) ''fresh'') = Some 1
   \<and> (\<forall>(s, sd) \<in> set (stages (temporal_qualities t)).
        0 \<le> saturation_adjustment sd \<and> saturation_adjustment sd \<le> 1
      \<and> 0 \<le> luminosity_adjustment sd \<and> luminosity_adjustment sd \<le> 1)
   \<and> non_increasing (map (\<lambda>(s, sd). saturation_adjustment sd) (stages (temporal_qualities t)))
   \<and> non_increasing (map (\<lambda>(s, sd). luminosity_adjustment sd) (stages (temporal_qualities t)))"
proof (intro ballI)
  fix entry
  assume mem: "entry \<in> set TERPENES"
  obtain k t where entry: "entry = (k, t)"
    by (cases entry)
  from decays_TERPENES mem entry have "decays t"
    by (auto simp: list_all_iff)
  then have inv: "map fst (stages (temporal_qualities t)) = [''fresh'', ''active'', ''fading'', ''traces'']
   \<and> map_option saturation_adjustment (map_of (stages (temporal_qualities t)) ''fresh'') = Some 1
   \<and> map_option luminosity_adjustment (map_of (stages (temporal_qualities t)) ''fresh'') = Some 1
   \<and> (\<forall>(s, sd) \<in> set (stages (temporal_qualities t)).
        0 \<le> saturation_adjustment sd \<and> saturation_adjustment sd \<le> 1
      \<and> 0 \<le> luminosity_adjustment sd \<and> luminosity_adjustment sd \<le> 1)
   \<and> non_increasing (map (\<lambda>(s, sd). saturation_adjustment sd) (stages (temporal_qualities t)))
   \<and> non_increasing (map (\<lambda>(s, sd). luminosity_adjustment sd) (stages (temporal_qualities t)))"
    unfolding decays_def Let_def stage_order_def in_unit_interval_def list_all_iff conj_assoc
    by blast
  show "case entry of (k, t) \<Rightarrow>
     map fst (stages (temporal_qualities t)) = [''fresh'', ''active'', ''fading'', ''traces'']
   \<and> map_option saturation_adjustment (map_of (stages (temporal_qualities t)) ''fresh'') = Some 1
   \<and> map_option luminosity_adjustment (map_of (stages (temporal_qualities t)) ''fresh'') = Some 1
   \<and> (\<forall>(s, sd) \<in> set (stages (temporal_qualities t)).
        0 \<le> saturation_adjustment sd \<and> saturation_adjustment sd \<le> 1
      \<and> 0 \<le> luminosity_adjustment sd \<and> luminosity_adjustment sd \<le> 1)
   \<and> non_increasing (map (\<lambda>(s, sd). saturation_adjustment sd) (stages (temporal_qualities t)))
   \<and> non_increasing (map (\<lambda>(s, sd). luminosity_adjustment sd) (stages (temporal_qualities t)))"
    unfolding entry prod.case by (rule inv)
qed

theorem stage_adjustments_decay_witness:
  "(''ocimene'', ocimene_record) \<in> set TERPENES
   \<and> map (\<lambda>(s, sd). (s, saturation_adjustment sd, luminosity_adjustment sd))
        (stages (temporal_qualities ocimene_record))
     = [(''fresh'', 1, 1), (''active'', 0.75, 0.95), (''fading'', 0.35, 0.85), (''traces'', 0.1, 0.75)]
   \<and> non_increasing (map (\<lambda>(s, sd). saturation_adjustment sd) (stages (temporal_qualities ocimene_record)))
   \<and> non_increasing (map (\<lambda>(s, sd). luminosity_adjustment sd) (stages (temporal_qualities ocimene_record)))"
proof -
  have mem: "(''ocimene'', ocimene_record) \<in> set TERPENES"
    by (simp add: TERPENES_def)
  have vals: "map (\<lambda>(s, sd). (s, saturation_adjustment sd, luminosity_adjustment sd))
        (stages (temporal_qualities ocimene_record))
     = [(''fresh'', 1, 1), (''active'', 0.75, 0.95), (''fading'', 0.35, 0.85), (''traces'', 0.1, 0.75)]"
    by (simp add: ocimene_record_def)
  from stage_adjustments_decay mem
  have "non_increasing (map (\<lambda>(s, sd). saturation_adjustment sd) (stages (temporal_qualities ocimene_record)))
      \<and> non_increasing (map (\<lambda>(s, sd). luminosity_adjustment sd) (stages (temporal_qualities ocimene_record)))"
    by blast
  with mem vals show ?thesis
    by simp
qed

subsection \<open>Resolution of identifiers\<close>

lemma normalised_keys:
  "list_all (\<lambda>k. str_strip (str_lower k) = k
               \<and> str_strip (str_lower (str_upper k)) = k
               \<and> str_strip (str_lower ('' '' @ k @ '' '')) = k)
     [''limonene'', ''pinene'', ''myrcene'', ''caryophyllene'', ''linalool'',
      ''terpinolene'', ''humulene'', ''ocimene'', ''sabinene'', ''geraniol'', ''thymol'']"
  by code_simp

lemma stored_key_normalised:
  assumes "k \<in> set (map fst TERPENES)"
  shows "str_strip (str_lower k) = k"
    and "str_strip (str_lower (str_upper k)) = k"
    and "str_strip (str_lower ('' '' @ k @ '' '')) = k"
  using assms normalised_keys unfolding TERPENES_keys list_all_iff by blast+

lemma limonene_stored: "map_of TERPENES (str_strip (str_lower ''limonene'')) = Some limonene_record"
proof -
  have "str_strip (str_lower ''limonene'') = ''limonene''"
    by code_simp
  then show ?thesis
    by (simp add: TERPENES_def)
qed

lemma nonexistent_not_stored: "map_of TERPENES (str_strip (str_lower ''nonexistent'')) = None"
proof -
  have "str_strip (str_lower ''nonexistent'') = ''nonexistent''"
    by code_simp
  then show ?thesis
    by (simp add: TERPENES_def)
qed

text \<open>
  C8. For every key \<open>id\<close> of the table, \<open>get_terpene\<close> gives for \<open>id.upper()\<close> and for
  \<open>" " + id + " "\<close> what it gives for \<open>id\<close>, the stored record; and for a name whose
  normal form is no key, the failure message quotes the name as it was given.
\<close>

theorem get_terpene_normalises:
  "(\<forall>k \<in> set (map fst TERPENES).
      get_terpene (str_upper k) = get_terpene k
    \<and> get_terpene ('' '' @ k @ '' '') = get_terpene k
    \<and> (\<exists>t. map_of TERPENES k = Some t \<and> get_terpene k = json_of_terpene t))
   \<and> (map_of TERPENES (str_strip (str_lower terpene_name)) = None \<longrightarrow>
        get_terpene terpene_name =
          JObj [(''error'', JStr (''Terpene '' @ [CHR 0x27] @ terpene_name @ [CHR 0x27] @ '' not found''))])"
proof (intro conjI ballI impI)
  fix k
  assume k: "k \<in> set (map fst TERPENES)"
  from k obtain t where t: "map_of TERPENES k = Some t"
    by (metis map_of_eq_None_iff not_Some_eq set_map)
  then have found: "get_terpene k = json_of_terpene t"
    by (simp add: get_terpene_def stored_key_normalised(1) [OF k])
  from t show "get_terpene (str_upper k) = get_terpene k"
    by (simp add: get_terpene_def stored_key_normalised(1,2) [OF k])
  from t show "get_terpene ('' '' @ k @ '' '') = get_terpene k"
    using stored_key_normalised(3) [OF k] stored_key_normalised(1) [OF k]
    by (simp add: get_terpene_def)
  from found t show "\<exists>t. map_of TERPENES k = Some t \<and> get_terpene k = json_of_terpene t"
    by blast
next
  assume "map_of TERPENES (str_strip (str_lower terpene_name)) = None"
  then show "get_terpene terpene_name =
      JObj [(''error'', JStr (''Terpene '' @ [CHR 0x27] @ terpene_name @ [CHR 0x27] @ '' not found''))]"
    by (simp add: get_terpene_def not_found_def)
qed

theorem get_terpene_normalises_witness:
  "''limonene'' \<in> set (map fst TERPENES)
   \<and> get_terpene ''LIMONENE'' = json_of_terpene limonene_record
   \<and> get_terpene '' limonene '' = json_of_terpene limonene_record
   \<and> map_of TERPENES (str_strip (str_lower '' Nonexistent'')) = None
   \<and> get_terpene '' Nonexistent'' =
       JObj [(''error'', JStr (''Terpene '' @ [CHR 0x27] @ '' Nonexistent'' @ [CHR 0x27] @ '' not found''))]"
proof -
  have mem: "''limonene'' \<in> set (map fst TERPENES)"
    by (simp add: TERPENES_keys)
  have up: "str_upper ''limonene'' = ''LIMONENE''"
    by code_simp
  have stored: "map_of TERPENES ''limonene'' = Some limonene_record"
    by (simp add: TERPENES_def)
  have missing: "map_of TERPENES (str_strip (str_lower '' Nonexistent'')) = None"
  proof -
    have "str_strip (str_lower '' Nonexistent'') = ''nonexistent''"
      by code_simp
    then show ?thesis
      by (simp add: TERPENES_def)
  qed
  note inst = get_terpene_normalises [of "'' Nonexistent''"]
  from inst mem have
    "get_terpene (str_upper ''limonene'') = get_terpene ''limonene''
     \<and> get_terpene ('' '' @ ''limonene'' @ '' '') = get_terpene ''limonene''
     \<and> (\<exists>t. map_of TERPENES ''limonene'' = Some t \<and> get_terpene ''limonene'' = json_of_terpene t)"
    by blast
  moreover from inst missing have "get_terpene '' Nonexistent'' =
       JObj [(''error'', JStr (''Terpene '' @ [CHR 0x27] @ '' Nonexistent'' @ [CHR 0x27] @ '' not found''))]"
    by blast
  ultimately show ?thesis
    using mem up stored missing by auto
qed

subsection \<open>Stage-adjusted prompt and palette\<close>

text \<open>
  C2. When the name resolves to a stored terpene: for the stage \<open>fresh\<close> and for a stage
  that is none of the four stage keys (also \<open>None\<close>), \<open>get_master_prompt\<close> returns the
  master prompt unchanged and the fresh stage record; for \<open>active\<close>, \<open>fading\<close> and
  \<open>traces\<close> it returns the master prompt followed by two newlines and the annotation
  \<open>[<STAGE> STAGE: <description>]\<close> of that stage, and that stage's record.
\<close>

theorem get_master_prompt_by_stage:
  assumes "map_of TERPENES (str_strip (str_lower terpene_name)) = Some t"
  shows "((temporal_stage = Some ''fresh'' \<or> temporal_stage \<notin> Some ` set stage_order) \<longrightarrow>
            (\<exists>fresh. map_of (stages (temporal_qualities t)) ''fresh'' = Some fresh
               \<and> get_master_prompt terpene_name temporal_stage = Inr (JObj [
                     (''terpene'', JStr (name t)),
                     (''temporal_stage'', json_of_stage_name temporal_stage),
                     (''master_prompt'', JStr (master_prompt t)),
                     (''stage_adjustments'', json_of_stage fresh)])))
       \<and> (\<forall>s \<in> {''active'', ''fading'', ''traces''}. temporal_stage = Some s \<longrightarrow>
            (\<exists>stage_data. map_of (stages (temporal_qualities t)) s = Some stage_data
               \<and> get_master_prompt terpene_name temporal_stage = Inr (JObj [
                     (''terpene'', JStr (name t)),
                     (''temporal_stage'', JStr s),
                     (''master_prompt'', JStr (master_prompt t @ [CHR 0x0A, CHR 0x0A] @ ''[''
                        @ str_upper s @ '' STAGE: '' @ description stage_data @ '']'')),
                     (''stage_adjustments'', json_of_stage stage_data)])))"
proof -
  let ?st = "stages (temporal_qualities t)"
  have keys: "map fst ?st = stage_order"
    using assms by (rule stored_stage_keys)
  obtain fresh where fresh: "map_of ?st ''fresh'' = Some fresh"
    using recognized_stage_found [OF keys, of "''fresh''"] by (auto simp: stage_order_def)
  have unmodified: "get_master_prompt terpene_name temporal_stage = Inr (JObj [
        (''terpene'', JStr (name t)),
        (''temporal_stage'', json_of_stage_name temporal_stage),
        (''master_prompt'', JStr (master_prompt t)),
        (''stage_adjustments'', json_of_stage fresh)])"
    if "temporal_stage = Some ''fresh'' \<or> temporal_stage \<notin> Some ` set stage_order"
  proof (cases temporal_stage)
    case None
    then show ?thesis
      using assms fresh by (simp add: get_master_prompt_def Let_def)
  next
    case (Some s)
    show ?thesis
    proof (cases "s = ''fresh''")
      case True
      with Some assms fresh show ?thesis
        by (simp add: get_master_prompt_def Let_def)
    next
      case False
      with that Some have "s \<notin> set stage_order"
        by auto
      then have "map_of ?st s = None"
        by (rule unrecognized_stage_missing [OF keys])
      with Some assms fresh show ?thesis
        by (simp add: get_master_prompt_def Let_def)
    qed
  qed
  have annotated: "\<exists>stage_data. map_of ?st s = Some stage_data
        \<and> get_master_prompt terpene_name temporal_stage = Inr (JObj [
              (''terpene'', JStr (name t)),
              (''temporal_stage'', JStr s),
              (''master_prompt'', JStr (master_prompt t @ [CHR 0x0A, CHR 0x0A] @ ''[''
                 @ str_upper s @ '' STAGE: '' @ description stage_data @ '']'')),
              (''stage_adjustments'', json_of_stage stage_data)])"
    if s: "s \<in> {''active'', ''fading'', ''traces''}" and ts: "temporal_stage = Some s" for s
  proof -
    from s have "s \<in> set stage_order" and nf: "s \<noteq> ''fresh''"
      by (auto simp: stage_order_def)
    then obtain stage_data where sd: "map_of ?st s = Some stage_data"
      using recognized_stage_found [OF keys] by blast
    with ts nf assms have "get_master_prompt terpene_name temporal_stage = Inr (JObj [
              (''terpene'', JStr (name t)),
              (''temporal_stage'', JStr s),
              (''master_prompt'', JStr (master_prompt t @ [CHR 0x0A, CHR 0x0A] @ ''[''
                 @ str_upper s @ '' STAGE: '' @ description stage_data @ '']'')),
              (''stage_adjustments'', json_of_stage stage_data)])"
      by (simp add: get_master_prompt_def Let_def)
    with sd show ?thesis
      by blast
  qed
  from fresh unmodified annotated show ?thesis
    by blast
qed

theorem get_master_prompt_by_stage_witness:
  "map_of TERPENES (str_strip (str_lower ''limonene'')) = Some limonene_record
   \<and> get_master_prompt ''limonene'' (Some ''fresh'') = Inr (JObj [
         (''terpene'', JStr ''Limonene''),
         (''temporal_stage'', JStr ''fresh''),
         (''master_prompt'', JStr (master_prompt limonene_record)),
         (''stage_adjustments'', JObj [
            (''duration'', JStr ''0-2 hours''),
            (''description'', JStr ''Sharp edges, maximal saturation, crisp geometry, intense highlights''),
            (''saturation_adjustment'', JNum 1),
            (''luminosity_adjustment'', JNum 1),
            (''edge_quality'', JStr ''Crisp'')])])
   \<and> get_master_prompt ''limonene'' (Some ''fading'') = Inr (JObj [
         (''terpene'', JStr ''Limonene''),
         (''temporal_stage'', JStr ''fading''),
         (''master_prompt'', JStr (master_prompt limonene_record @ [CHR 0x0A, CHR 0x0A]
            @ ''[FADING STAGE: Edges blur significantly, saturation drops to 40-60%, highlights diffuse]'')),
         (''stage_adjustments'', JObj [
            (''duration'', JStr ''6-12 hours''),
            (''description'', JStr ''Edges blur significantly, saturation drops to 40-60%, highlights diffuse''),
            (''saturation_adjustment'', JNum 0.5),
            (''luminosity_adjustment'', JNum 0.85),
            (''edge_quality'', JStr ''Soft'')])])"
proof -
  let ?st = "stages (temporal_qualities limonene_record)"
  have up: "str_upper ''fading'' = ''FADING''"
    by code_simp
  have fresh: "map_of ?st ''fresh'' = Some \<lparr>
      duration = ''0-2 hours'',
      description = ''Sharp edges, maximal saturation, crisp geometry, intense highlights'',
      saturation_adjustment = 1, luminosity_adjustment = 1, edge_quality = ''Crisp''\<rparr>"
    by (simp add: limonene_record_def)
  have fading: "map_of ?st ''fading'' = Some \<lparr>
      duration = ''6-12 hours'',
      description = ''Edges blur significantly, saturation drops to 40-60%, highlights diffuse'',
      saturation_adjustment = 0.5, luminosity_adjustment = 0.85, edge_quality = ''Soft''\<rparr>"
    by (simp add: limonene_record_def)
  have nm: "name limonene_record = ''Limonene''"
    by (simp add: limonene_record_def)
  have a: "get_master_prompt ''limonene'' (Some ''fresh'') = Inr (JObj [
         (''terpene'', JStr ''Limonene''),
         (''temporal_stage'', JStr ''fresh''),
         (''master_prompt'', JStr (master_prompt limonene_record)),
         (''stage_adjustments'', JObj [
            (''duration'', JStr ''0-2 hours''),
            (''description'', JStr ''Sharp edges, maximal saturation, crisp geometry, intense highlights''),
            (''saturation_adjustment'', JNum 1),
            (''luminosity_adjustment'', JNum 1),
            (''edge_quality'', JStr ''Crisp'')])])"
    using get_master_prompt_by_stage [OF limonene_stored, of "Some ''fresh''"] fresh nm
    by (simp add: json_of_stage_def json_of_stage_name_def)
  have b: "get_master_prompt ''limonene'' (Some ''fading'') = Inr (JObj [
         (''terpene'', JStr ''Limonene''),
         (''temporal_stage'', JStr ''fading''),
         (''master_prompt'', JStr (master_prompt limonene_record @ [CHR 0x0A, CHR 0x0A]
            @ ''[FADING STAGE: Edges blur significantly, saturation drops to 40-60%, highlights diffuse]'')),
         (''stage_adjustments'', JObj [
            (''duration'', JStr ''6-12 hours''),
            (''description'', JStr ''Edges blur significantly, saturation drops to 40-60%, highlights diffuse''),
            (''saturation_adjustment'', JNum 0.5),
            (''luminosity_adjustment'', JNum 0.85),
            (''edge_quality'', JStr ''Soft'')])])"
    using get_master_prompt_by_stage [OF limonene_stored, of "Some ''fading''"] fading nm up
    by (simp add: json_of_stage_def)
  from limonene_stored a b show ?thesis
    by (intro conjI)
qed

text \<open>
  C3. When the name resolves to a stored terpene: for each of the four stage keys,
  \<open>get_color_palette\<close> returns the entries of \<open>color_specs\<close> followed by the entry
  \<open>temporal_adjustments\<close>, made of the saturation and luminosity adjustments, the edge
  quality and the description of that stage; for any other stage (also \<open>None\<close>) it
  returns the entries of \<open>color_specs\<close> alone, which have no key
  \<open>temporal_adjustments\<close>.
\<close>

theorem get_color_palette_by_stage:
  assumes "map_of TERPENES (str_strip (str_lower terpene_name)) = Some t"
  shows "(\<forall>s \<in> set stage_order.
            \<exists>stage_data. map_of (stages (temporal_qualities t)) s = Some stage_data
              \<and> get_color_palette terpene_name (Some s) = JObj [
                    (''terpene'', JStr (name t)),
                    (''temporal_stage'', JStr s),
                    (''color_specs'', JObj (items_of_color_specs (color_specs t) @ [
                       (''temporal_adjustments'', JObj [
                          (''saturation_multiplier'', JNum (saturation_adjustment stage_data)),
                          (''luminosity_multiplier'', JNum (luminosity_adjustment stage_data)),
                          (''edge_quality'', JStr (edge_quality stage_data)),
                          (''stage_description'', JStr (description stage_data))])]))])
       \<and> (temporal_stage \<notin> Some ` set stage_order \<longrightarrow>
            get_color_palette terpene_name temporal_stage = JObj [
              (''terpene'', JStr (name t)),
              (''temporal_stage'', json_of_stage_name temporal_stage),
              (''color_specs'', JObj (items_of_color_specs (color_specs t)))]
            \<and> ''temporal_adjustments'' \<notin> fst ` set (items_of_color_specs (color_specs t)))"
proof -
  let ?st = "stages (temporal_qualities t)"
  have keys: "map fst ?st = stage_order"
    using assms by (rule stored_stage_keys)
  have appended: "dict_set (items_of_color_specs (color_specs t)) ''temporal_adjustments'' v
      = items_of_color_specs (color_specs t) @ [(''temporal_adjustments'', v)]" for v
    by (simp add: items_of_color_specs_def)
  have recognized: "\<exists>stage_data. map_of ?st s = Some stage_data
        \<and> get_color_palette terpene_name (Some s) = JObj [
              (''terpene'', JStr (name t)),
              (''temporal_stage'', JStr s),
              (''color_specs'', JObj (items_of_color_specs (color_specs t) @ [
                 (''temporal_adjustments'', JObj [
                    (''saturation_multiplier'', JNum (saturation_adjustment stage_data)),
                    (''luminosity_multiplier'', JNum (luminosity_adjustment stage_data)),
                    (''edge_quality'', JStr (edge_quality stage_data)),
                    (''stage_description'', JStr (description stage_data))])]))]"
    if "s \<in> set stage_order" for s
  proof -
    from that obtain stage_data where sd: "map_of ?st s = Some stage_data"
      using recognized_stage_found [OF keys] by blast
    with assms have "get_color_palette terpene_name (Some s) = JObj [
              (''terpene'', JStr (name t)),
              (''temporal_stage'', JStr s),
              (''color_specs'', JObj (items_of_color_specs (color_specs t) @ [
                 (''temporal_adjustments'', JObj [
                    (''saturation_multiplier'', JNum (saturation_adjustment stage_data)),
                    (''luminosity_multiplier'', JNum (luminosity_adjustment stage_data)),
                    (''edge_quality'', JStr (edge_quality stage_data)),
                    (''stage_description'', JStr (description stage_data))])]))]"
      by (simp add: get_color_palette_def Let_def dict_get_def appended json_of_stage_name_def)
    with sd show ?thesis
      by blast
  qed
  have unrecognized: "get_color_palette terpene_name temporal_stage = JObj [
        (''terpene'', JStr (name t)),
        (''temporal_stage'', json_of_stage_name temporal_stage),
        (''color_specs'', JObj (items_of_color_specs (color_specs t)))]"
    if "temporal_stage \<notin> Some ` set stage_order"
  proof -
    have "dict_get ?st temporal_stage = None"
    proof (cases temporal_stage)
      case None
      then show ?thesis
        by (simp add: dict_get_def)
    next
      case (Some s)
      with that have "s \<notin> set stage_order"
        by auto
      then have "map_of ?st s = None"
        by (rule unrecognized_stage_missing [OF keys])
      with Some show ?thesis
        by (simp add: dict_get_def)
    qed
    with assms show ?thesis
      by (simp add: get_color_palette_def Let_def)
  qed
  have no_key: "''temporal_adjustments'' \<notin> fst ` set (items_of_color_specs (color_specs t))"
    by (simp add: items_of_color_specs_def)
  from recognized unrecognized no_key show ?thesis
    by blast
qed

theorem get_color_palette_by_stage_witness:
  "map_of TERPENES (str_strip (str_lower ''limonene'')) = Some limonene_record
   \<and> ''fading'' \<in> set stage_order
   \<and> Some ''bogus_stage'' \<notin> Some ` set stage_order
   \<and> get_color_palette ''limonene'' (Some ''fading'') = JObj [
         (''terpene'', JStr ''Limonene''),
         (''temporal_stage'', JStr ''fading''),
         (''color_specs'', JObj (items_of_color_specs (color_specs limonene_record) @ [
            (''temporal_adjustments'', JObj [
               (''saturation_multiplier'', JNum 0.5),
               (''luminosity_multiplier'', JNum 0.85),
               (''edge_quality'', JStr ''Soft''),
               (''stage_description'',
                  JStr ''Edges blur significantly, saturation drops to 40-60%, highlights diffuse'')])]))]
   \<and> get_color_palette ''limonene'' (Some ''bogus_stage'') = JObj [
         (''terpene'', JStr ''Limonene''),
         (''temporal_stage'', JStr ''bogus_stage''),
         (''color_specs'', JObj [
            (''primary_palette'', JStr ''Saturated yellows (60%), oranges (25%), whites/highlights (15%)''),
            (''saturation'', JStr ''High (75-95%)''),
            (''luminosity'', JStr ''Very bright (80-90%)''),
            (''boundaries'', JStr ''Crisp transitions''),
            (''secondary_accents'', JStr ''White highlights, pale lemon''),
            (''color_quality'', JStr ''Transparent, translucent quality'')])]"
proof -
  let ?st = "stages (temporal_qualities limonene_record)"
  have fading: "map_of ?st ''fading'' = Some \<lparr>
      duration = ''6-12 hours'',
      description = ''Edges blur significantly, saturation drops to 40-60%, highlights diffuse'',
      saturation_adjustment = 0.5, luminosity_adjustment = 0.85, edge_quality = ''Soft''\<rparr>"
    by (simp add: limonene_record_def)
  have nm: "name limonene_record = ''Limonene''"
    by (simp add: limonene_record_def)
  have cs: "items_of_color_specs (color_specs limonene_record) = [
            (''primary_palette'', JStr ''Saturated yellows (60%), oranges (25%), whites/highlights (15%)''),
            (''saturation'', JStr ''High (75-95%)''),
            (''luminosity'', JStr ''Very bright (80-90%)''),
            (''boundaries'', JStr ''Crisp transitions''),
            (''secondary_accents'', JStr ''White highlights, pale lemon''),
            (''color_quality'', JStr ''Transparent, translucent quality'')]"
    by (simp add: limonene_record_def items_of_color_specs_def)
  have r: "''fading'' \<in> set stage_order"
    by (simp add: stage_order_def)
  have u: "Some ''bogus_stage'' \<notin> Some ` set stage_order"
    by (simp add: stage_order_def)
  note inst = get_color_palette_by_stage [OF limonene_stored, of "Some ''bogus_stage''"]
  from inst r fading have a: "get_color_palette ''limonene'' (Some ''fading'') = JObj [
         (''terpene'', JStr ''Limonene''),
         (''temporal_stage'', JStr ''fading''),
         (''color_specs'', JObj (items_of_color_specs (color_specs limonene_record) @ [
            (''temporal_adjustments'', JObj [
               (''saturation_multiplier'', JNum 0.5),
               (''luminosity_multiplier'', JNum 0.85),
               (''edge_quality'', JStr ''Soft''),
               (''stage_description'',
                  JStr ''Edges blur significantly, saturation drops to 40-60%, highlights diffuse'')])]))]"
    by (auto simp: nm)
  from inst u have "get_color_palette ''limonene'' (Some ''bogus_stage'') = JObj [
         (''terpene'', JStr (name limonene_record)),
         (''temporal_stage'', json_of_stage_name (Some ''bogus_stage'')),
         (''color_specs'', JObj (items_of_color_specs (color_specs limonene_record)))]"
    by blast
  then have b: "get_color_palette ''limonene'' (Some ''bogus_stage'') = JObj [
         (''terpene'', JStr ''Limonene''),
         (''temporal_stage'', JStr ''bogus_stage''),
         (''color_specs'', JObj [
            (''primary_palette'', JStr ''Saturated yellows (60%), oranges (25%), whites/highlights (15%)''),
            (''saturation'', JStr ''High (75-95%)''),
            (''luminosity'', JStr ''Very bright (80-90%)''),
            (''boundaries'', JStr ''Crisp transitions''),
            (''secondary_accents'', JStr ''White highlights, pale lemon''),
            (''color_quality'', JStr ''Transparent, translucent quality'')])]"
    by (simp only: nm cs json_of_stage_name_def option.case)
  from limonene_stored r u a b show ?thesis
    by (intro conjI)
qed

subsection \<open>Intensity modifier\<close>

text \<open>
  The float model: \<open>float_exponent\<close> is the binary exponent, and \<open>double_of x\<close> is a
  multiple of the spacing of the doubles at \<open>x\<close>, at most half that spacing away
  from \<open>x\<close>.
\<close>

lemma ilog2_bounds:
  "0 < n \<Longrightarrow> 2 ^ ilog2 n \<le> n \<and> n < 2 ^ Suc (ilog2 n)"
proof (induction n rule: ilog2.induct)
  case (1 n)
  show ?case
  proof (cases "n < 2")
    case True
    with "1.prems" have "n = 1"
      by simp
    then show ?thesis
      by (simp add: ilog2.simps)
  next
    case False
    then have pos: "0 < n div 2"
      by simp
    from "1.IH" [OF False pos]
    have lo: "2 ^ ilog2 (n div 2) \<le> n div 2" and hi: "n div 2 < 2 ^ Suc (ilog2 (n div 2))"
      by simp_all
    from False have eq: "ilog2 n = Suc (ilog2 (n div 2))"
      by (simp add: ilog2.simps [of n])
    from lo have "2 * 2 ^ ilog2 (n div 2) \<le> n"
      by linarith
    moreover from hi have "n < 2 * 2 ^ Suc (ilog2 (n div 2))"
      by linarith
    ultimately show ?thesis
      by (simp add: eq)
  qed
qed

lemma pow2_nat: "pow2 (int k) = 2 ^ k"
  by (simp add: pow2_def)

lemma pow2_neg: "pow2 (- int k) = 1 / 2 ^ k"
  by (cases k) (simp_all add: pow2_def nat_add_distrib)

lemma pow2_Suc: "pow2 (e + 1) = 2 * pow2 e"
proof (cases "0 \<le> e")
  case True
  then show ?thesis
    by (simp add: pow2_def nat_add_distrib)
next
  case False
  then obtain k where e: "e = - int (Suc k)"
    by (metis add.inverse_inverse nat_0_le neg_0_le_iff_le not_le_imp_less less_le int_nat_eq
        not0_implies_Suc of_nat_0 neg_equal_zero)
  have e1: "e + 1 = - int k"
    using e by simp
  have l: "pow2 (e + 1) = 1 / 2 ^ k"
    by (simp only: e1 pow2_neg)
  have r: "pow2 e = 1 / 2 ^ Suc k"
    by (simp only: e pow2_neg)
  show ?thesis
    unfolding l r by simp
qed

lemma floor_ilog2:
  fixes a :: rat
  assumes "1 \<le> a"
  shows "2 ^ ilog2 (nat \<lfloor>a\<rfloor>) \<le> a \<and> a < 2 ^ Suc (ilog2 (nat \<lfloor>a\<rfloor>))"
proof -
  let ?n = "nat \<lfloor>a\<rfloor>"
  from assms have fl: "1 \<le> \<lfloor>a\<rfloor>"
    by (simp add: le_floor_iff)
  then have pos: "0 < ?n"
    by simp
  from ilog2_bounds [OF pos] have lo: "2 ^ ilog2 ?n \<le> ?n" and hi: "?n < 2 ^ Suc (ilog2 ?n)"
    by simp_all
  have n: "of_nat ?n = (of_int \<lfloor>a\<rfloor> :: rat)"
    using fl by simp
  have "(of_nat (2 ^ ilog2 ?n) :: rat) \<le> of_nat ?n"
    using lo by (simp only: of_nat_le_iff)
  also have "\<dots> \<le> a"
    unfolding n by (rule of_int_floor_le)
  finally have A: "2 ^ ilog2 ?n \<le> a"
    by simp
  from hi have "?n + 1 \<le> 2 ^ Suc (ilog2 ?n)"
    by simp
  then have "(of_nat (?n + 1) :: rat) \<le> of_nat (2 ^ Suc (ilog2 ?n))"
    by (simp only: of_nat_le_iff)
  moreover have "a < of_nat (?n + 1)"
    using n by (simp add: floor_correct [of a] ) linarith
  ultimately have "a < of_nat (2 ^ Suc (ilog2 ?n))"
    by linarith
  then have B: "a < 2 ^ Suc (ilog2 ?n)"
    by simp
  from A B show ?thesis
    by blast
qed

lemma float_exponent_bounds:
  assumes "x \<noteq> 0"
  shows "pow2 (float_exponent x) \<le> \<bar>x\<bar> \<and> \<bar>x\<bar> < pow2 (float_exponent x + 1)"
proof (cases "1 \<le> \<bar>x\<bar>")
  case True
  then have e: "float_exponent x = int (ilog2 (nat \<lfloor>\<bar>x\<bar>\<rfloor>))"
    by (simp add: float_exponent_def)
  from floor_ilog2 [OF True] show ?thesis
    unfolding e pow2_Suc pow2_nat by simp
next
  case False
  let ?a = "\<bar>x\<bar>"
  let ?k = "ilog2 (nat \<lfloor>1 / ?a\<rfloor>)"
  from assms have apos: "0 < ?a"
    by simp
  with False have "1 \<le> 1 / ?a"
    by (simp add: le_divide_eq)
  from floor_ilog2 [OF this] have lo: "2 ^ ?k \<le> 1 / ?a" and hi: "1 / ?a < 2 ^ Suc ?k"
    by simp_all
  from lo apos have up: "?a \<le> 1 / 2 ^ ?k"
    by (simp add: field_simps)
  from hi apos have down: "1 / 2 ^ Suc ?k < ?a"
    by (simp add: field_simps)
  show ?thesis
  proof (cases "pow2 (- int ?k) = ?a")
    case True
    with False have e: "float_exponent x = - int ?k"
      by (simp add: float_exponent_def Let_def)
    have "?a < 2 * pow2 (- int ?k)"
      using True apos by simp
    with True show ?thesis
      unfolding e pow2_Suc by simp
  next
    case ne: False
    with False have e: "float_exponent x = - int ?k - 1"
      by (simp add: float_exponent_def Let_def)
    have s: "- int ?k - 1 = - int (Suc ?k)"
      by simp
    from ne up have "?a < pow2 (- int ?k)"
      by (simp add: pow2_neg)
    moreover from down have "pow2 (- int (Suc ?k)) \<le> ?a"
      unfolding pow2_neg by simp
    ultimately show ?thesis
      unfolding e s using pow2_Suc [of "- int (Suc ?k)"] by simp
  qed
qed

lemma pow2_pos: "0 < pow2 e"
  by (simp add: pow2_def)

lemma round_half_even_near: "\<bar>of_int (round_half_even y) - y\<bar> \<le> 1 / 2"
proof -
  have "of_int \<lfloor>y\<rfloor> \<le> y" and "y < of_int \<lfloor>y\<rfloor> + 1"
    by linarith+
  then show ?thesis
    by (auto simp: round_half_even_def Let_def abs_le_iff)
qed

lemma double_of_nearest:
  assumes "x \<noteq> 0"
  shows "\<exists>m. double_of x = of_int m * pow2 (max (float_exponent x) (- 1022) - 52)
           \<and> \<bar>double_of x - x\<bar> \<le> pow2 (max (float_exponent x) (- 1022) - 52) / 2"
proof -
  let ?ulp = "pow2 (max (float_exponent x) (- 1022) - 52)"
  let ?m = "round_half_even (x / ?ulp)"
  have pos: "0 < ?ulp"
    by (rule pow2_pos)
  from assms have d: "double_of x = of_int ?m * ?ulp"
    by (simp add: double_of_def Let_def)
  have "\<bar>of_int ?m - x / ?ulp\<bar> \<le> 1 / 2"
    by (rule round_half_even_near)
  then have "\<bar>of_int ?m - x / ?ulp\<bar> * ?ulp \<le> 1 / 2 * ?ulp"
    using pos by (simp only: mult_le_cancel_right_pos)
  moreover have "\<bar>of_int ?m - x / ?ulp\<bar> * ?ulp = \<bar>of_int ?m * ?ulp - x\<bar>"
  proof -
    have "\<bar>of_int ?m - x / ?ulp\<bar> * ?ulp = \<bar>(of_int ?m - x / ?ulp) * ?ulp\<bar>"
      using pos by (simp add: abs_mult)
    also have "(of_int ?m - x / ?ulp) * ?ulp = of_int ?m * ?ulp - x"
      using pos by (simp add: field_simps)
    finally show ?thesis .
  qed
  ultimately have "\<bar>double_of x - x\<bar> \<le> ?ulp / 2"
    unfolding d by simp
  with d show ?thesis
    by blast
qed

text \<open>Values of the float model, as Python prints them.\<close>

lemma double_of_examples:
  "double_of 0.1 = 3602879701896397 / 36028797018963968"
  "double_of 0.3 = 5404319552844595 / 18014398509481984"
  "double_of 0.7 = 3152519739159347 / 4503599627370496"
  "double_of 0.85 = 7656119366529843 / 9007199254740992"
  "fadd (double_of 0.1) (double_of 0.2) = double_of 0.30000000000000004"
  "fadd (double_of 0.7) (double_of 0.3) = 1"
  by code_simp+

lemma anchors_exact: "list_all is_double (map fst intensity_captions)"
  by code_simp

lemma luminosity_modifier_examples:
  "fadd (double_of 0.7) (fmul 0.25 (double_of 0.3)) = double_of 0.7749999999999999"
  "fadd (double_of 0.7) (fmul 0.25 (double_of 0.3)) \<noteq> double_of 0.775"
  "fadd (double_of 0.7) (fmul (double_of 0.7) (double_of 0.3)) = double_of 0.9099999999999999"
  "fadd (double_of 0.7) (fmul 1 (double_of 0.3)) = 1"
  by code_simp+

lemma round2_examples:
  "round2 (double_of 0.495) = double_of 0.49"
  "round2 (double_of 0.005) = double_of 0.01"
  "round2 (double_of 0.995) = double_of 0.99"
  "round2 0.125 = double_of 0.12"
  "round2 0.5 = 0.5"
  by code_simp+

text \<open>
  C4. For a name that resolves to a stored terpene and a float intensity between 0
  and 1, \<open>apply_intensity_modifier\<close> returns the record whose \<open>application\<close> has
  \<open>saturation_modifier = intensity\<close>, \<open>luminosity_modifier = 0.7 + intensity * 0.3\<close>,
  \<open>edge_softness_modifier = 1 - intensity * 0.5\<close> (the literals and the operations
  being those of floats) and \<open>composition_emphasis\<close> \<open>Minimal\<close> below the float 0.3,
  \<open>Maximum\<close> from the float 0.7 on and \<open>Balanced\<close> between.
\<close>

theorem apply_intensity_modifier_application:
  assumes "map_of TERPENES (str_strip (str_lower terpene_name)) = Some t"
    and "is_double intensity" and "0 \<le> intensity" and "intensity \<le> 1"
  shows "\<exists>caption. apply_intensity_modifier float_str terpene_name intensity = JObj [
           (''terpene'', JStr (name t)),
           (''intensity_level'', JNum intensity),
           (''intensity_description'', JStr caption),
           (''application'', JObj [
              (''saturation_modifier'', JNum intensity),
              (''luminosity_modifier'',
                 JNum (fadd (double_of 0.7) (fmul intensity (double_of 0.3)))),
              (''edge_softness_modifier'',
                 JNum (fsub 1 (fmul intensity (double_of 0.5)))),
              (''composition_emphasis'',
                 JStr (if intensity < double_of 0.3 then ''Minimal''
                       else if double_of 0.7 \<le> intensity then ''Maximum''
                       else ''Balanced''))])]"
proof -
  have emphasis: "(if intensity < double_of 0.3 then ''Minimal''
                   else if intensity < double_of 0.7 then ''Balanced'' else ''Maximum'')
                = (if intensity < double_of 0.3 then ''Minimal''
                   else if double_of 0.7 \<le> intensity then ''Maximum'' else ''Balanced'')"
    by (simp add: not_less)
  from assms(1,3,4) show ?thesis
    unfolding apply_intensity_modifier_def Let_def emphasis by simp
qed

text \<open>At the intensity 0.5: the luminosity modifier is the float 0.85 and the emphasis
  is \<open>Balanced\<close>.\<close>

theorem apply_intensity_modifier_application_witness:
  "map_of TERPENES (str_strip (str_lower ''limonene'')) = Some limonene_record
   \<and> is_double 0.5
   \<and> apply_intensity_modifier (\<lambda>x. []) ''limonene'' 0.5 = JObj [
        (''terpene'', JStr ''Limonene''),
        (''intensity_level'', JNum 0.5),
        (''intensity_description'',
           JStr ''Balanced - terpene reshapes execution while subject remains primary''),
        (''application'', JObj [
           (''saturation_modifier'', JNum 0.5),
           (''luminosity_modifier'', JNum (double_of 0.85)),
           (''edge_softness_modifier'', JNum 0.75),
           (''composition_emphasis'', JStr ''Balanced'')])]"
proof -
  have dbl: "is_double 0.5"
    by code_simp
  have lo: "(0::rat) \<le> 0.5" and hi: "(0.5::rat) \<le> 1"
    by simp_all
  have nm: "name limonene_record = ''Limonene''"
    by (simp add: limonene_record_def)
  have lum: "fadd (double_of 0.7) (fmul 0.5 (double_of 0.3)) = double_of 0.85"
    by code_simp
  have edge: "fsub 1 (fmul 0.5 (double_of 0.5)) = 0.75"
    by code_simp
  have not_minimal: "\<not> 0.5 < double_of 0.3"
    by code_simp
  have not_maximum: "\<not> double_of 0.7 \<le> 0.5"
    by code_simp
  have "round2 0.5 = 0.5"
    by code_simp
  then have caption: "map_of intensity_captions (round2 0.5)
      = Some ''Balanced - terpene reshapes execution while subject remains primary''"
    by (simp add: intensity_captions_def)
  from apply_intensity_modifier_application [OF limonene_stored dbl lo hi, of "\<lambda>x. []"]
  obtain c where c: "apply_intensity_modifier (\<lambda>x. []) ''limonene'' 0.5 = JObj [
           (''terpene'', JStr (name limonene_record)),
           (''intensity_level'', JNum 0.5),
           (''intensity_description'', JStr c),
           (''application'', JObj [
              (''saturation_modifier'', JNum 0.5),
              (''luminosity_modifier'',
                 JNum (fadd (double_of 0.7) (fmul 0.5 (double_of 0.3)))),
              (''edge_softness_modifier'',
                 JNum (fsub 1 (fmul 0.5 (double_of 0.5)))),
              (''composition_emphasis'',
                 JStr (if 0.5 < double_of 0.3 then ''Minimal''
                       else if double_of 0.7 \<le> 0.5 then ''Maximum''
                       else ''Balanced''))])]"
    by blast
  have "c = ''Balanced - terpene reshapes execution while subject remains primary''"
    using c limonene_stored caption
    by (simp add: apply_intensity_modifier_def Let_def)
  with c have "apply_intensity_modifier (\<lambda>x. []) ''limonene'' 0.5 = JObj [
        (''terpene'', JStr ''Limonene''),
        (''intensity_level'', JNum 0.5),
        (''intensity_description'',
           JStr ''Balanced - terpene reshapes execution while subject remains primary''),
        (''application'', JObj [
           (''saturation_modifier'', JNum 0.5),
           (''luminosity_modifier'', JNum (double_of 0.85)),
           (''edge_softness_modifier'', JNum 0.75),
           (''composition_emphasis'', JStr ''Balanced'')])]"
    by (simp only: nm lum edge not_minimal not_maximum if_False)
  with limonene_stored dbl show ?thesis
    by (intro conjI)
qed

text \<open>
  C5. An intensity below 0 or above 1 gives the failure
  \<open>{"error": "Intensity must be between 0 and 1"}\<close>, whatever the name; an intensity
  between 0 and 1 with a name that resolves gives a record without the key \<open>error\<close>,
  whose \<open>intensity_level\<close> is the intensity as it was given.
\<close>

theorem apply_intensity_modifier_range:
  "(intensity < 0 \<or> 1 < intensity \<longrightarrow>
      apply_intensity_modifier float_str terpene_name intensity
        = JObj [(''error'', JStr ''Intensity must be between 0 and 1'')])
   \<and> (0 \<le> intensity \<and> intensity \<le> 1
        \<and> map_of TERPENES (str_strip (str_lower terpene_name)) \<noteq> None \<longrightarrow>
        (\<exists>fields. apply_intensity_modifier float_str terpene_name intensity = JObj fields
           \<and> map_of fields ''error'' = None
           \<and> map_of fields ''intensity_level'' = Some (JNum intensity)))"
  by (auto simp: apply_intensity_modifier_def Let_def)

theorem apply_intensity_modifier_range_witness:
  "apply_intensity_modifier (\<lambda>x. []) ''limonene'' (- 0.1)
     = JObj [(''error'', JStr ''Intensity must be between 0 and 1'')]
   \<and> apply_intensity_modifier (\<lambda>x. []) ''limonene'' 1.1
     = JObj [(''error'', JStr ''Intensity must be between 0 and 1'')]
   \<and> map_of TERPENES (str_strip (str_lower ''limonene'')) \<noteq> None
   \<and> (\<exists>fields. apply_intensity_modifier (\<lambda>x. []) ''limonene'' 1 = JObj fields
         \<and> map_of fields ''error'' = None
         \<and> map_of fields ''intensity_level'' = Some (JNum 1))"
proof -
  have stored: "map_of TERPENES (str_strip (str_lower ''limonene'')) \<noteq> None"
    using limonene_stored by simp
  have "(- 0.1 :: rat) < 0 \<or> 1 < (- 0.1 :: rat)"
    by simp
  with apply_intensity_modifier_range [of "- 0.1" "\<lambda>x. []" "''limonene''"]
  have a: "apply_intensity_modifier (\<lambda>x. []) ''limonene'' (- 0.1)
     = JObj [(''error'', JStr ''Intensity must be between 0 and 1'')]"
    by blast
  have "(1.1 :: rat) < 0 \<or> 1 < (1.1 :: rat)"
    by simp
  with apply_intensity_modifier_range [of "1.1" "\<lambda>x. []" "''limonene''"]
  have b: "apply_intensity_modifier (\<lambda>x. []) ''limonene'' 1.1
     = JObj [(''error'', JStr ''Intensity must be between 0 and 1'')]"
    by blast
  have "(0::rat) \<le> 1 \<and> (1::rat) \<le> 1"
    by simp
  with apply_intensity_modifier_range [of 1 "\<lambda>x. []" "''limonene''"] stored
  have c: "\<exists>fields. apply_intensity_modifier (\<lambda>x. []) ''limonene'' 1 = JObj fields
         \<and> map_of fields ''error'' = None
         \<and> map_of fields ''intensity_level'' = Some (JNum 1)"
    by blast
  from a b stored c show ?thesis
    by (intro conjI)
qed

text \<open>
  C10. The range check comes before the lookup: for a name that does not resolve and
  an intensity below 0 or above 1, the result is the range failure, which is not the
  not-found failure for that name.
\<close>

theorem intensity_checked_before_lookup:
  assumes "map_of TERPENES (str_strip (str_lower terpene_name)) = None"
    and "intensity < 0 \<or> 1 < intensity"
  shows "apply_intensity_modifier float_str terpene_name intensity
           = JObj [(''error'', JStr ''Intensity must be between 0 and 1'')]
       \<and> apply_intensity_modifier float_str terpene_name intensity \<noteq> not_found terpene_name"
proof -
  from assms(2) have res: "apply_intensity_modifier float_str terpene_name intensity
      = JObj [(''error'', JStr ''Intensity must be between 0 and 1'')]"
    by (auto simp: apply_intensity_modifier_def)
  have "''Intensity must be between 0 and 1''
      \<noteq> ''Terpene '' @ [CHR 0x27] @ terpene_name @ [CHR 0x27] @ '' not found''"
    by simp
  with res show ?thesis
    by (simp add: not_found_def)
qed

theorem intensity_checked_before_lookup_witness:
  "map_of TERPENES (str_strip (str_lower ''nonexistent'')) = None
   \<and> ((1.1::rat) < 0 \<or> 1 < (1.1::rat))
   \<and> apply_intensity_modifier (\<lambda>x. []) ''nonexistent'' 1.1
       = JObj [(''error'', JStr ''Intensity must be between 0 and 1'')]
   \<and> apply_intensity_modifier (\<lambda>x. []) ''nonexistent'' 1.1 \<noteq> not_found ''nonexistent''"
proof -
  have r: "(1.1::rat) < 0 \<or> 1 < (1.1::rat)"
    by simp
  note inst = intensity_checked_before_lookup [OF nonexistent_not_stored r, of "\<lambda>x. []"]
  from inst have a: "apply_intensity_modifier (\<lambda>x. []) ''nonexistent'' 1.1
       = JObj [(''error'', JStr ''Intensity must be between 0 and 1'')]"
    by (rule conjunct1)
  from inst have b: "apply_intensity_modifier (\<lambda>x. []) ''nonexistent'' 1.1 \<noteq> not_found ''nonexistent''"
    by (rule conjunct2)
  from nonexistent_not_stored r a b show ?thesis
    by (intro conjI)
qed

subsection \<open>Comparison\<close>

lemma compare_terpenes_missing:
  assumes "map_of TERPENES (str_strip (str_lower terpene1_name)) = None
         \<or> map_of TERPENES (str_strip (str_lower terpene2_name)) = None"
  shows "compare_terpenes terpene1_name terpene2_name
           = JObj [(''error'', JStr ''One or both terpenes not found'')]"
  using assms by (auto simp: compare_terpenes_def Let_def split: option.splits)

lemma limonene_nonexistent_compared:
  "compare_terpenes ''limonene'' ''nonexistent''
     = JObj [(''error'', JStr ''One or both terpenes not found'')]"
  using nonexistent_not_stored by (simp add: compare_terpenes_missing)

text \<open>
  C6, as the claim states it, fails: with \<open>limonene\<close> stored and \<open>nonexistent\<close> not,
  the failure is the combined one, and its message does not contain the name of the
  missing side.
\<close>

theorem compare_terpenes_names_missing_side_counterexample:
  "map_of TERPENES (str_strip (str_lower ''limonene'')) \<noteq> None
   \<and> map_of TERPENES (str_strip (str_lower ''nonexistent'')) = None
   \<and> compare_terpenes ''limonene'' ''nonexistent''
       = JObj [(''error'', JStr ''One or both terpenes not found'')]
   \<and> \<not> str_contains ''One or both terpenes not found'' ''nonexistent''"
proof -
  have "\<not> str_contains ''One or both terpenes not found'' ''nonexistent''"
    by code_simp
  with limonene_stored nonexistent_not_stored limonene_nonexistent_compared show ?thesis
    by simp
qed

text \<open>
  C6, amended. When exactly one of the two names fails to resolve, \<open>compare_terpenes\<close>
  returns the combined failure \<open>{"error": "One or both terpenes not found"}\<close>: the
  failure it returns when both are missing, the same whichever side is missing.
\<close>

theorem compare_terpenes_one_missing:
  assumes "(map_of TERPENES (str_strip (str_lower terpene1_name)) = None)
         \<noteq> (map_of TERPENES (str_strip (str_lower terpene2_name)) = None)"
    and "map_of TERPENES (str_strip (str_lower missing1)) = None"
    and "map_of TERPENES (str_strip (str_lower missing2)) = None"
  shows "compare_terpenes terpene1_name terpene2_name = compare_terpenes missing1 missing2
       \<and> compare_terpenes terpene1_name terpene2_name = compare_terpenes terpene2_name terpene1_name
       \<and> compare_terpenes terpene1_name terpene2_name
           = JObj [(''error'', JStr ''One or both terpenes not found'')]"
proof -
  from assms(1) have "map_of TERPENES (str_strip (str_lower terpene1_name)) = None
      \<or> map_of TERPENES (str_strip (str_lower terpene2_name)) = None"
    by auto
  then have "compare_terpenes terpene1_name terpene2_name
        = JObj [(''error'', JStr ''One or both terpenes not found'')]"
    and "compare_terpenes terpene2_name terpene1_name
        = JObj [(''error'', JStr ''One or both terpenes not found'')]"
    by (auto intro: compare_terpenes_missing)
  moreover from assms(2) have "compare_terpenes missing1 missing2
        = JObj [(''error'', JStr ''One or both terpenes not found'')]"
    by (simp add: compare_terpenes_missing)
  ultimately show ?thesis
    by simp
qed

theorem compare_terpenes_one_missing_witness:
  "(map_of TERPENES (str_strip (str_lower ''limonene'')) = None)
     \<noteq> (map_of TERPENES (str_strip (str_lower ''nonexistent'')) = None)
   \<and> compare_terpenes ''limonene'' ''nonexistent'' = compare_terpenes ''nonexistent'' ''nonexistent''
   \<and> compare_terpenes ''limonene'' ''nonexistent'' = compare_terpenes ''nonexistent'' ''limonene''
   \<and> compare_terpenes ''limonene'' ''nonexistent''
       = JObj [(''error'', JStr ''One or both terpenes not found'')]"
proof -
  have one: "(map_of TERPENES (str_strip (str_lower ''limonene'')) = None)
     \<noteq> (map_of TERPENES (str_strip (str_lower ''nonexistent'')) = None)"
    using limonene_stored nonexistent_not_stored by simp
  note inst = compare_terpenes_one_missing [OF one nonexistent_not_stored nonexistent_not_stored]
  from one inst show ?thesis
    by (intro conjI) (rule one, (rule inst [THEN conjunct1]), (rule inst [THEN conjunct2, THEN conjunct1]),
        (rule inst [THEN conjunct2, THEN conjunct2]))
qed

text \<open>
  C7. Whenever at least one of the two normalised names is no key of the table, the
  result of \<open>compare_terpenes\<close> is exactly the record
  \<open>{"error": "One or both terpenes not found"}\<close>: one entry, nothing about the side
  that did resolve.
\<close>

theorem compare_terpenes_combined_failure:
  assumes "map_of TERPENES (str_strip (str_lower terpene1_name)) = None
         \<or> map_of TERPENES (str_strip (str_lower terpene2_name)) = None"
  shows "compare_terpenes terpene1_name terpene2_name
           = JObj [(''error'', JStr ''One or both terpenes not found'')]"
  using assms by (rule compare_terpenes_missing)

theorem compare_terpenes_combined_failure_witness:
  "(map_of TERPENES (str_strip (str_lower ''limonene'')) = None
      \<or> map_of TERPENES (str_strip (str_lower ''nonexistent'')) = None)
   \<and> compare_terpenes ''limonene'' ''nonexistent''
       = JObj [(''error'', JStr ''One or both terpenes not found'')]"
proof -
  have h: "map_of TERPENES (str_strip (str_lower ''limonene'')) = None
      \<or> map_of TERPENES (str_strip (str_lower ''nonexistent'')) = None"
    using nonexistent_not_stored by simp
  from compare_terpenes_combined_failure [OF h] h show ?thesis
    by (intro conjI)
qed

subsection \<open>Concept suggestion\<close>

lemma keyword_loop_silent:
  assumes "\<forall>(keywords, terpene_id) \<in> set km. \<not> fires keywords concept_lower"
  shows "keyword_loop km concept concept_lower suggestions = Inr suggestions"
  using assms by (induction km arbitrary: suggestions) auto

lemma first_five_keys:
  "take 5 (map fst TERPENES) = [''limonene'', ''pinene'', ''myrcene'', ''caryophyllene'', ''linalool'']"
  by (simp add: TERPENES_keys)

lemma first_five_entries:
  "take 5 TERPENES = [(''limonene'', limonene_record), (''pinene'', pinene_record),
     (''myrcene'', myrcene_record), (''caryophyllene'', caryophyllene_record),
     (''linalool'', linalool_record)]"
  by (simp add: TERPENES_def)

lemma first_five_stored:
  "map_of TERPENES ''limonene'' = Some limonene_record"
  "map_of TERPENES ''pinene'' = Some pinene_record"
  "map_of TERPENES ''myrcene'' = Some myrcene_record"
  "map_of TERPENES ''caryophyllene'' = Some caryophyllene_record"
  "map_of TERPENES ''linalool'' = Some linalool_record"
  by (simp_all add: TERPENES_def)

lemma default_suggestions_first_five:
  "default_suggestions (take 5 (map fst TERPENES)) =
     Inr (map (\<lambda>(t_id, t). JObj [
            (''terpene'', JStr (name t)),
            (''terpene_id'', JStr t_id),
            (''fusion_strength'', JStr (fusion_strength t))]) (take 5 TERPENES))"
  unfolding first_five_keys first_five_entries
  by (simp add: first_five_stored)

text \<open>
  C9. For a concept in which no keyword of any association occurs,
  \<open>suggest_terpene_for_concept\<close> returns as suggestions the first five entries of the
  table in definition order (\<open>limonene\<close>, \<open>pinene\<close>, \<open>myrcene\<close>, \<open>caryophyllene\<close>,
  \<open>linalool\<close>), each with the keys \<open>terpene\<close>, \<open>terpene_id\<close> and \<open>fusion_strength\<close>
  and no others, so with no key \<open>reason\<close>.
\<close>

theorem suggest_terpene_for_concept_fallback:
  assumes "\<forall>(keywords, terpene_id) \<in> set keyword_map. \<not> fires keywords (str_lower concept)"
  shows "suggest_terpene_for_concept concept = Inr (JObj [
           (''concept'', JStr concept),
           (''suggestions'', JArr (map (\<lambda>(t_id, t). JObj [
                (''terpene'', JStr (name t)),
                (''terpene_id'', JStr t_id),
                (''fusion_strength'', JStr (fusion_strength t))]) (take 5 TERPENES))),
           (''note'', JStr suggestion_note)])
       \<and> map fst (take 5 TERPENES)
           = [''limonene'', ''pinene'', ''myrcene'', ''caryophyllene'', ''linalool'']"
proof -
  have "keyword_loop keyword_map concept (str_lower concept) [] = Inr []"
    using assms by (rule keyword_loop_silent)
  then have "suggest_terpene_for_concept concept = Inr (JObj [
           (''concept'', JStr concept),
           (''suggestions'', JArr (map (\<lambda>(t_id, t). JObj [
                (''terpene'', JStr (name t)),
                (''terpene_id'', JStr t_id),
                (''fusion_strength'', JStr (fusion_strength t))]) (take 5 TERPENES))),
           (''note'', JStr suggestion_note)])"
    by (simp add: suggest_terpene_for_concept_def Let_def default_suggestions_first_five)
  moreover have "map fst (take 5 TERPENES)
      = [''limonene'', ''pinene'', ''myrcene'', ''caryophyllene'', ''linalool'']"
    by (simp add: first_five_entries)
  ultimately show ?thesis
    by (rule conjI)
qed

theorem suggest_terpene_for_concept_fallback_witness:
  "list_all (\<lambda>(keywords, terpene_id). \<not> fires keywords (str_lower '''')) keyword_map
   \<and> suggest_terpene_for_concept '''' = Inr (JObj [
        (''concept'', JStr ''''),
        (''suggestions'', JArr [
           JObj [(''terpene'', JStr ''Limonene''), (''terpene_id'', JStr ''limonene''),
                 (''fusion_strength'', JStr (fusion_strength limonene_record))],
           JObj [(''terpene'', JStr ''Pinene''), (''terpene_id'', JStr ''pinene''),
                 (''fusion_strength'', JStr (fusion_strength pinene_record))],
           JObj [(''terpene'', JStr ''Myrcene''), (''terpene_id'', JStr ''myrcene''),
                 (''fusion_strength'', JStr (fusion_strength myrcene_record))],
           JObj [(''terpene'', JStr ''Caryophyllene''), (''terpene_id'', JStr ''caryophyllene''),
                 (''fusion_strength'', JStr (fusion_strength caryophyllene_record))],
           JObj [(''terpene'', JStr ''Linalool''), (''terpene_id'', JStr ''linalool''),
                 (''fusion_strength'', JStr (fusion_strength linalool_record))]]),
        (''note'', JStr suggestion_note)])"
proof -
  have quiet: "list_all (\<lambda>(keywords, terpene_id). \<not> fires keywords (str_lower '''')) keyword_map"
    by code_simp
  then have silent: "\<forall>(keywords, terpene_id) \<in> set keyword_map. \<not> fires keywords (str_lower '''')"
    by (simp add: list_all_iff)
  have names: "name limonene_record = ''Limonene''" "name pinene_record = ''Pinene''"
    "name myrcene_record = ''Myrcene''" "name caryophyllene_record = ''Caryophyllene''"
    "name linalool_record = ''Linalool''"
    by (simp_all add: limonene_record_def pinene_record_def myrcene_record_def
        caryophyllene_record_def linalool_record_def)
  from suggest_terpene_for_concept_fallback [OF silent]
  have "suggest_terpene_for_concept '''' = Inr (JObj [
           (''concept'', JStr ''''),
           (''suggestions'', JArr (map (\<lambda>(t_id, t). JObj [
                (''terpene'', JStr (name t)),
                (''terpene_id'', JStr t_id),
                (''fusion_strength'', JStr (fusion_strength t))]) (take 5 TERPENES))),
           (''note'', JStr suggestion_note)])"
    by (rule conjunct1)
  then have "suggest_terpene_for_concept '''' = Inr (JObj [
        (''concept'', JStr ''''),
        (''suggestions'', JArr [
           JObj [(''terpene'', JStr ''Limonene''), (''terpene_id'', JStr ''limonene''),
                 (''fusion_strength'', JStr (fusion_strength limonene_record))],
           JObj [(''terpene'', JStr ''Pinene''), (''terpene_id'', JStr ''pinene''),
                 (''fusion_strength'', JStr (fusion_strength pinene_record))],
           JObj [(''terpene'', JStr ''Myrcene''), (''terpene_id'', JStr ''myrcene''),
                 (''fusion_strength'', JStr (fusion_strength myrcene_record))],
           JObj [(''terpene'', JStr ''Caryophyllene''), (''terpene_id'', JStr ''caryophyllene''),
                 (''fusion_strength'', JStr (fusion_strength caryophyllene_record))],
           JObj [(''terpene'', JStr ''Linalool''), (''terpene_id'', JStr ''linalool''),
                 (''fusion_strength'', JStr (fusion_strength linalool_record))]]),
        (''note'', JStr suggestion_note)])"
    by (simp add: first_five_entries names)
  with quiet show ?thesis
    by (rule conjI)
qed

end
